theory Spec2Isabelle
  imports Complex_Main
begin

section \<open>Data model\<close>

text \<open>
  The simulation's agent is the dataclass \<^verbatim>\<open>NPC\<close> of \<^verbatim>\<open>npc.py\<close>; the doctrine engine
  exists twice, as methods of \<^verbatim>\<open>NPC\<close> and as the class \<^verbatim>\<open>DoctrineMixin\<close> of
  \<^verbatim>\<open>doctrines.py\<close>. Both are embedded. Python floats are modelled as \<^typ>\<open>real\<close> (exact
  arithmetic), Python integers as \<^typ>\<open>int\<close>. Every call of \<^verbatim>\<open>random.random()\<close> is an
  explicit argument holding the value drawn, a number of the interval from 0 (included)
  to 1 (excluded). The string constants of \<^verbatim>\<open>npc.py\<close> (doctrine, archetype, zone, state
  and phase names) and the enumerations of \<^verbatim>\<open>doctrines.py\<close> are datatypes.
\<close>

datatype DoctrineType =
  MERITOCRATIC | TRANSCENDENT | CONSPIRATORIAL | REVOLUTIONARY | LIBERTARIAN_CULT

datatype NPCArchetype = PRAGMATIST | IDEALIST | ANXIOUS | OUTSIDER | HEDONIST

text \<open>Anchor names: the five work zones and \<^verbatim>\<open>"HOME"\<close>.\<close>

datatype place = HOME | SCIENCE | TRADE | DEVELOPMENT | FLEX | PANTHEON

datatype npc_state = AT_HOME | TRAVELING | AT_WORK

datatype phase = RESTING | COMMUTING | WORKING | RETURNING

datatype pantheon_doctrine = TRANSCENDENCE | MERITOCRACY | COHERENCE

datatype history_event = EXPOSED | ESCAPE_BEGUN | RECOVERED | DOCTRINE_COLLAPSE

datatype error = KeyError | ZeroDivisionError

text \<open>
  \<^verbatim>\<open>DoctrineProfile\<close> of \<^verbatim>\<open>npc.py\<close>; the class of the same name in \<^verbatim>\<open>doctrines.py\<close> has
  one more field, \<^verbatim>\<open>conflict_dissonance\<close>, and is the record extension.
\<close>

record DoctrineProfile =
  doctrine_type :: DoctrineType
  strength :: real
  time_indoctrinated :: int
  guru_id :: "int option"

record ConflictProfile = DoctrineProfile +
  conflict_dissonance :: real

text \<open>
  The fields of \<^verbatim>\<open>NPC\<close>. The empty string of \<^verbatim>\<open>zone\<close> and of \<^verbatim>\<open>archetype\<close> before
  \<^verbatim>\<open>__post_init__\<close> is \<open>None\<close>; \<^verbatim>\<open>id\<close> is \<open>npc_id\<close>. A history entry is the triple
  (tick, doctrine name or \<^verbatim>\<open>"NONE"\<close>, event). The fields \<^verbatim>\<open>commitments\<close> and
  \<^verbatim>\<open>decision_history\<close> are left out: no method reads or writes them. The type parameter
  is the profile class.
\<close>

record 'p NPC =
  x :: real
  y :: real
  zone :: "place option"
  state :: npc_state
  target :: "place option"
  speed :: real
  npc_id :: int
  money :: real
  energy :: real
  coherence :: real
  self_esteem :: real
  stress_endured :: real
  skills :: "place \<rightharpoonup> real"
  trust_log :: "string list list"
  pantheon_visit_count :: int
  pantheon_doctrine_bias :: real
  pantheon_doctrine_type :: "pantheon_doctrine option"
  is_guru :: bool
  travel_budget :: int
  work_budget :: int
  shift_offset :: int
  cycle_phase :: phase
  is_collapsing :: bool
  trustworthiness :: real
  trade_dissonance :: real
  archetype :: "NPCArchetype option"
  doctrine_profile :: "'p option"
  doctrine_history :: "(int \<times> DoctrineType option \<times> history_event) list"
  deradicalization_timer :: int
  injustice_accumulated :: real
  collapse_cycle_count :: int
  has_witnessed_system_failure :: bool

text \<open>
  The host of \<^verbatim>\<open>DoctrineMixin\<close>: \<^verbatim>\<open>init_doctrine_fields\<close> adds
  \<^verbatim>\<open>doctrine_conflict_stress\<close> to the agent's fields.
\<close>

record MixinNPC = "ConflictProfile NPC" +
  doctrine_conflict_stress :: real

type_synonym agent = "DoctrineProfile NPC"

type_synonym anchors = "place \<rightharpoonup> real \<times> real"

text \<open>The configuration dictionary, with the keys the agent reads.\<close>

record TravelCosts =
  energy_cost_per_tick :: "real option"
  money_cost_per_tick :: "real option"

record Config =
  inertia :: real
  duration :: int
  travel_ratio :: real
  zone_travel_costs :: "place \<rightharpoonup> TravelCosts"

text \<open>
  The random numbers one call of \<^verbatim>\<open>act\<close> may draw: the override draw and the
  REVOLUTIONARY draw of \<^verbatim>\<open>get_doctrine_override\<close>, one jitter draw per scored zone in
  \<^verbatim>\<open>decide_work_zone\<close>, and the draw of the CONSPIRATORIAL escape check.
\<close>

record Draws =
  r_override :: real
  r_revolutionary :: real
  r_jitter :: "place \<Rightarrow> real"
  r_escape :: real

section \<open>Library functions of Python\<close>

definition hypot :: "real \<Rightarrow> real \<Rightarrow> real" where
  "hypot dx dy = sqrt (dx * dx + dy * dy)"

text \<open>\<^verbatim>\<open>random.uniform(a, b)\<close> is \<^verbatim>\<open>a + (b - a) * random()\<close>.\<close>

definition uniform :: "real \<Rightarrow> real \<Rightarrow> real \<Rightarrow> real" where
  "uniform a b u = a + (b - a) * u"

text \<open>\<^verbatim>\<open>int(r)\<close> truncates toward zero.\<close>

definition int_trunc :: "real \<Rightarrow> int" where
  "int_trunc r = (if 0 \<le> r then \<lfloor>r\<rfloor> else \<lceil>r\<rceil>)"

text \<open>\<^verbatim>\<open>deque(maxlen=m).append(v)\<close>: the oldest entries leave when the deque is full.\<close>

definition deque_append :: "nat \<Rightarrow> 'a list \<Rightarrow> 'a \<Rightarrow> 'a list" where
  "deque_append m xs v = drop (length (xs @ [v]) - m) (xs @ [v])"

text \<open>\<^verbatim>\<open>max(scores, key=scores.get)\<close>: the first key, in insertion order, of maximal score.\<close>

primrec max_from :: "'k \<times> real \<Rightarrow> ('k \<times> real) list \<Rightarrow> 'k" where
  "max_from best [] = fst best"
| "max_from best (c # cs) = max_from (if snd best < snd c then c else best) cs"

definition max_key :: "('k \<times> real) list \<Rightarrow> 'k option" where
  "max_key xs = (case xs of [] \<Rightarrow> None | c # cs \<Rightarrow> Some (max_from c cs))"

text \<open>\<^verbatim>\<open>itertools.count(start)\<close> is its next value; \<^verbatim>\<open>next\<close> returns it and advances.\<close>

definition itertools_count :: "int \<Rightarrow> int" where
  "itertools_count start = start"

definition next_count :: "int \<Rightarrow> int \<times> int" where
  "next_count c = (c, c + 1)"

section \<open>The agent of npc.py\<close>

subsection \<open>Movement and work\<close>

definition move_toward_target :: "anchors \<Rightarrow> Config \<Rightarrow> agent \<Rightarrow> bool \<times> agent" where
  "move_toward_target anch config n =
     (case target n of
        None \<Rightarrow> (False, n)
      | Some t \<Rightarrow>
          (case anch t of
             None \<Rightarrow> (False, n)
           | Some (target_x, target_y) \<Rightarrow>
               (let dx = target_x - x n;
                    dy = target_y - y n;
                    distance = hypot dx dy
                in if distance < 3 then (True, n\<lparr>x := target_x, y := target_y\<rparr>)
                   else
                     (let move_x = (dx / distance) * speed n;
                          move_y = (dy / distance) * speed n;
                          n1 = n\<lparr>x := x n + move_x, y := y n + move_y\<rparr>
                      in (False,
                          (case zone_travel_costs config t of
                             None \<Rightarrow> n1
                           | Some costs \<Rightarrow>
                               n1\<lparr>energy := energy n1 -
                                     (case energy_cost_per_tick costs of None \<Rightarrow> 0.1 | Some c \<Rightarrow> c),
                                   money := money n1 -
                                     (case money_cost_per_tick costs of None \<Rightarrow> 0.02 | Some c \<Rightarrow> c)\<rparr>))))))"

text \<open>The PANTHEON branch of \<^verbatim>\<open>perform_work\<close>.\<close>

definition work_pantheon :: "agent \<Rightarrow> agent" where
  "work_pantheon n =
     (let n1 = n\<lparr>self_esteem := min 1.0 (self_esteem n + 0.12),
                 stress_endured := max 0.0 (stress_endured n * 0.5),
                 coherence := coherence n + 0.06,
                 pantheon_visit_count := pantheon_visit_count n + 1\<rparr>;
          n2 = (if pantheon_visit_count n1 = 1 then
                  (if stress_endured n1 > 60 then n1\<lparr>pantheon_doctrine_type := Some TRANSCENDENCE\<rparr>
                   else if money n1 < 20 then n1\<lparr>pantheon_doctrine_type := Some MERITOCRACY\<rparr>
                   else n1\<lparr>pantheon_doctrine_type := Some COHERENCE\<rparr>)
                else n1);
          n3 = n2\<lparr>pantheon_doctrine_bias := min 1.0 (pantheon_doctrine_bias n2 + 0.03)\<rparr>;
          n4 = (if \<not> is_guru n3 \<and> pantheon_visit_count n3 \<ge> 10 then n3\<lparr>is_guru := True\<rparr> else n3)
      in if \<not> is_guru n4 then n4\<lparr>energy := energy n4 - 8.0\<rparr>
         else n4\<lparr>energy := min 100.0 (energy n4 + 0.5)\<rparr>)"

definition perform_work :: "Config \<Rightarrow> agent \<Rightarrow> agent" where
  "perform_work config n =
     (case zone n of
        None \<Rightarrow> n
      | Some z \<Rightarrow>
          if state n \<noteq> AT_WORK then n
          else
            (let load = (stress_endured n / 100.0) + (1.0 - (energy n / 100.0));
                 efficiency = max 0.1 (min 1.0 (self_esteem n - (load * 0.3)));
                 n1 = (case z of
                         SCIENCE \<Rightarrow>
                           n\<lparr>self_esteem := min 1.0 (self_esteem n + 0.05),
                             money := money n - 1.0 * (1.5 - efficiency),
                             stress_endured := stress_endured n * 0.95\<rparr>
                       | TRADE \<Rightarrow>
                           (let n' = n\<lparr>money := money n + 15.0 * efficiency,
                                       stress_endured := stress_endured n + 4.0\<rparr>
                            in if 15.0 * efficiency < 12.0
                               then n'\<lparr>trade_dissonance :=
                                         trade_dissonance n' + (12.0 - 15.0 * efficiency) * 0.2\<rparr>
                               else n')
                       | DEVELOPMENT \<Rightarrow>
                           n\<lparr>energy := min 100.0 (energy n + 15.0 * efficiency),
                             self_esteem := self_esteem n - 0.07\<rparr>
                       | FLEX \<Rightarrow>
                           n\<lparr>stress_endured := stress_endured n - 12.0 * efficiency,
                             energy := energy n - 10.0\<rparr>
                       | PANTHEON \<Rightarrow> work_pantheon n
                       | HOME \<Rightarrow> n);
                 n2 = (case skills n1 z of
                         None \<Rightarrow> n1
                       | Some s \<Rightarrow> n1\<lparr>skills := (skills n1)(z \<mapsto> s + 0.01 * efficiency)\<rparr>)
             in n2\<lparr>money := max 0 (money n2),
                   energy := max 0 (min 100 (energy n2)),
                   stress_endured := max 0 (min 100 (stress_endured n2))\<rparr>))"

subsection \<open>Doctrine override and zone choice\<close>

text \<open>The local table \<^verbatim>\<open>overrides\<close> of \<^verbatim>\<open>NPC.get_doctrine_override\<close>.\<close>

definition overrides :: "DoctrineType \<rightharpoonup> place \<times> real" where
  "overrides = map_of
     [(MERITOCRATIC, (TRADE, 0.8)),
      (TRANSCENDENT, (PANTHEON, 0.95)),
      (CONSPIRATORIAL, (PANTHEON, 0.85)),
      (REVOLUTIONARY, (PANTHEON, 0.9)),
      (LIBERTARIAN_CULT, (TRADE, 0.75))]"

text \<open>
  \<open>r1\<close> is the draw compared with the frequency, \<open>r2\<close> the second draw, which only the
  REVOLUTIONARY branch makes.
\<close>

definition get_doctrine_override :: "real \<Rightarrow> real \<Rightarrow> agent \<Rightarrow> place option" where
  "get_doctrine_override r1 r2 n =
     (case doctrine_profile n of
        None \<Rightarrow> None
      | Some p \<Rightarrow>
          (let doc = doctrine_type p
           in case overrides doc of
                None \<Rightarrow> None
              | Some (forced_zone, freq) \<Rightarrow>
                  if r1 > freq then None
                  else if doc = MERITOCRATIC then (if money n < 50 then Some TRADE else None)
                  else if doc = REVOLUTIONARY
                  then (if r2 < 0.3 then Some DEVELOPMENT else Some PANTHEON)
                  else Some forced_zone))"

definition decide_work_zone :: "anchors \<Rightarrow> int \<Rightarrow> Draws \<Rightarrow> agent \<Rightarrow> place" where
  "decide_work_zone anch tick dr n =
     (case get_doctrine_override (r_override dr) (r_revolutionary dr) n of
        Some forced \<Rightarrow> forced
      | None \<Rightarrow>
          if energy n < 15 then HOME
          else
            (let scores =
                   (if self_esteem n < 0.5
                    then [(PANTHEON, (0.5 - self_esteem n) * 3.2 + (1.0 - coherence n) * 2.1)]
                    else [])
                   @ [(SCIENCE, (1.0 - coherence n) * 1.6),
                      (TRADE, max 0.0 ((50.0 - money n) / 50.0) * 2.2),
                      (DEVELOPMENT, ((100.0 - energy n) / 100.0) * 0.8),
                      (FLEX, (stress_endured n / 100.0) * 1.0)];
                 jittered =
                   map (\<lambda>(z, s). (z, s + uniform 0 (0.5 * (1.0 - coherence n)) (r_jitter dr z)))
                     scores
             in case max_key jittered of None \<Rightarrow> HOME | Some z \<Rightarrow> z))"

subsection \<open>State machine\<close>

definition on_collapse :: "('p, 'a) NPC_scheme \<Rightarrow> ('p, 'a) NPC_scheme" where
  "on_collapse n = n\<lparr>collapse_cycle_count := collapse_cycle_count n + 1\<rparr>"

text \<open>
  \<^verbatim>\<open>update_state\<close> is embedded in four parts, in the order of the source: the decay of
  coherence with the collapse check, and one function per branch of the state dispatch.
\<close>

definition decay_coherence :: "Config \<Rightarrow> agent \<Rightarrow> agent" where
  "decay_coherence config n0 =
     (let n1 = n0\<lparr>coherence :=
                   max 0.0 (min 1.0 (coherence n0 * inertia config - stress_endured n0 * 0.001))\<rparr>
      in if coherence n1 < 0.3 \<and> \<not> is_collapsing n1
         then on_collapse (n1\<lparr>is_collapsing := True\<rparr>) else n1)"

definition traveling_tick :: "anchors \<Rightarrow> Config \<Rightarrow> agent \<Rightarrow> agent" where
  "traveling_tick anch config n =
     (case move_toward_target anch config n of
        (reached, n1) \<Rightarrow>
          if reached then
            (if target n1 = Some HOME
             then n1\<lparr>state := AT_HOME, cycle_phase := RESTING\<rparr>
             else if target n1 \<in> Some ` {SCIENCE, TRADE, DEVELOPMENT, FLEX, PANTHEON}
             then n1\<lparr>state := AT_WORK, zone := target n1, cycle_phase := WORKING\<rparr>
             else n1)\<lparr>target := None\<rparr>
          else n1)"

text \<open>
  The modulus by \<^verbatim>\<open>shift_duration * 2\<close> raises ZeroDivisionError when the configured
  duration is 0; Python's \<^verbatim>\<open>%\<close> on integers and \<open>mod\<close> on \<^typ>\<open>int\<close> both take the sign
  of the divisor.
\<close>

definition at_home_tick ::
  "anchors \<Rightarrow> int \<Rightarrow> Draws \<Rightarrow> int \<Rightarrow> int \<Rightarrow> int \<Rightarrow> agent \<Rightarrow> error + agent" where
  "at_home_tick anch tick dr shift_duration travel_budget' work_budget' n =
     (let n1 = n\<lparr>energy := min 100.0 (energy n + 0.8),
                 stress_endured := max 0.0 (stress_endured n - 0.3)\<rparr>
      in if shift_duration * 2 = 0 then Inl ZeroDivisionError
         else if (tick - shift_offset n1) mod (shift_duration * 2) = 0 \<and> tick > shift_offset n1
         then
           (let n2 = n1\<lparr>travel_budget := travel_budget', work_budget := work_budget'\<rparr>;
                chosen = decide_work_zone anch tick dr n2
            in if chosen \<noteq> HOME
               then Inr (n2\<lparr>target := Some chosen, state := TRAVELING, cycle_phase := COMMUTING\<rparr>)
               else Inr n2)
         else Inr n1)"

definition at_work_tick :: "Config \<Rightarrow> agent \<Rightarrow> agent" where
  "at_work_tick config n =
     (let n1 = perform_work config n;
          n2 = n1\<lparr>work_budget := work_budget n1 - 1\<rparr>
      in if work_budget n2 \<le> 0 \<and> \<not> (is_guru n2 \<and> zone n2 = Some PANTHEON)
         then n2\<lparr>target := Some HOME, state := TRAVELING, cycle_phase := RETURNING, zone := None\<rparr>
         else n2)"

definition update_state :: "anchors \<Rightarrow> Config \<Rightarrow> int \<Rightarrow> Draws \<Rightarrow> agent \<Rightarrow> error + agent" where
  "update_state anch config tick dr n0 =
     (let n = decay_coherence config n0;
          shift_duration = duration config;
          travel_budget' = int_trunc (real_of_int shift_duration * travel_ratio config);
          work_budget' = shift_duration - travel_budget'
      in case state n of
           TRAVELING \<Rightarrow> Inr (traveling_tick anch config n)
         | AT_HOME \<Rightarrow> at_home_tick anch tick dr shift_duration travel_budget' work_budget' n
         | AT_WORK \<Rightarrow> if zone n = None then Inr n else Inr (at_work_tick config n))"

subsection \<open>Doctrine mechanics\<close>

text \<open>The local table \<^verbatim>\<open>vulnerability\<close> of \<^verbatim>\<open>NPC.expose_to_doctrine\<close>.\<close>

definition vulnerability :: "NPCArchetype \<Rightarrow> DoctrineType \<rightharpoonup> real" where
  "vulnerability a =
     (case a of
        PRAGMATIST \<Rightarrow> map_of [(MERITOCRATIC, 0.8), (LIBERTARIAN_CULT, 0.7)]
      | IDEALIST \<Rightarrow> map_of [(TRANSCENDENT, 0.9), (REVOLUTIONARY, 0.85)]
      | ANXIOUS \<Rightarrow> map_of [(CONSPIRATORIAL, 0.95), (TRANSCENDENT, 0.85)]
      | OUTSIDER \<Rightarrow> map_of [(REVOLUTIONARY, 0.95), (CONSPIRATORIAL, 0.85)]
      | HEDONIST \<Rightarrow> map_of [(LIBERTARIAN_CULT, 0.8), (MERITOCRATIC, 0.7)])"

text \<open>\<^verbatim>\<open>table.get(archetype, {}).get(doctrine_type, 0.5)\<close>, for either table.\<close>

definition lookup_vulnerability ::
  "(NPCArchetype \<Rightarrow> DoctrineType \<rightharpoonup> real) \<Rightarrow> NPCArchetype option \<Rightarrow> DoctrineType \<Rightarrow> real" where
  "lookup_vulnerability table a d =
     (case a of
        None \<Rightarrow> 0.5
      | Some a' \<Rightarrow> (case table a' d of None \<Rightarrow> 0.5 | Some v \<Rightarrow> v))"

text \<open>\<open>r\<close> is the value of \<^verbatim>\<open>random.random()\<close> the susceptibility is compared with.\<close>

definition expose_to_doctrine ::
  "DoctrineType \<Rightarrow> int option \<Rightarrow> int \<Rightarrow> real \<Rightarrow> agent \<Rightarrow> bool \<times> agent" where
  "expose_to_doctrine d gid tick r n =
     (if (case doctrine_profile n of None \<Rightarrow> False | Some p \<Rightarrow> doctrine_type p = d)
      then (False,
            n\<lparr>doctrine_profile :=
                map_option (\<lambda>p. p\<lparr>strength := strength p + 0.01\<rparr>) (doctrine_profile n)\<rparr>)
      else
        (let base_vuln = lookup_vulnerability vulnerability (archetype n) d;
             stress_factor = min 1.0 (stress_endured n / 80.0);
             coherence_factor = (1.0 - coherence n) * 0.5;
             susceptibility = base_vuln * 0.6 + stress_factor * 0.2 + coherence_factor * 0.2
         in if susceptibility > r
            then (True,
                  n\<lparr>doctrine_profile :=
                      Some \<lparr>doctrine_type = d, strength = 0.1, time_indoctrinated = 0,
                            guru_id = gid\<rparr>,
                    doctrine_history :=
                      deque_append 50 (doctrine_history n) (tick, Some d, EXPOSED)\<rparr>)
            else (False, n)))"

text \<open>\<^verbatim>\<open>DoctrineProfile.update\<close>.\<close>

definition update_profile :: "'q DoctrineProfile_scheme \<Rightarrow> 'q DoctrineProfile_scheme" where
  "update_profile p =
     p\<lparr>time_indoctrinated := time_indoctrinated p + 1, strength := min 1.0 (strength p + 0.02)\<rparr>"

definition apply_doctrine_effects :: "agent \<Rightarrow> agent" where
  "apply_doctrine_effects n =
     (case doctrine_profile n of
        None \<Rightarrow> n
      | Some p \<Rightarrow>
          (case doctrine_type p of
             MERITOCRATIC \<Rightarrow>
               if money n < 30
               then n\<lparr>self_esteem := self_esteem n - 0.03, stress_endured := stress_endured n + 2.0\<rparr>
               else n\<lparr>self_esteem := min 1.0 (self_esteem n + 0.02)\<rparr>
           | TRANSCENDENT \<Rightarrow>
               n\<lparr>stress_endured := stress_endured n * 0.9,
                 coherence := min 1.0 (coherence n + 0.05),
                 self_esteem := min 1.0 (self_esteem n + 0.02)\<rparr>
           | CONSPIRATORIAL \<Rightarrow>
               n\<lparr>stress_endured := min 100.0 (stress_endured n + 1.0),
                 self_esteem := min 1.0 (self_esteem n + 0.01)\<rparr>
           | REVOLUTIONARY \<Rightarrow>
               n\<lparr>stress_endured := min 100.0 (stress_endured n + 0.5),
                 self_esteem := min 1.0 (self_esteem n + 0.03),
                 coherence := max 0.0 (coherence n - 0.02)\<rparr>
           | LIBERTARIAN_CULT \<Rightarrow>
               (if money n > 150 then n\<lparr>self_esteem := min 1.0 (self_esteem n + 0.04)\<rparr> else n)
                 \<lparr>stress_endured := min 100.0 (stress_endured n + 0.5)\<rparr>))"

text \<open>\<open>r\<close> is the draw of the CONSPIRATORIAL branch.\<close>

definition check_escape_conditions :: "real \<Rightarrow> agent \<Rightarrow> bool" where
  "check_escape_conditions r n =
     (case doctrine_profile n of
        None \<Rightarrow> False
      | Some p \<Rightarrow>
          (case doctrine_type p of
             MERITOCRATIC \<Rightarrow> stress_endured n > 75 \<and> money n < 20
           | TRANSCENDENT \<Rightarrow> collapse_cycle_count n > 3 \<and> coherence n < 0.4
           | CONSPIRATORIAL \<Rightarrow> has_witnessed_system_failure n \<and> r < 0.02
           | REVOLUTIONARY \<Rightarrow> stress_endured n < 40 \<and> money n > 100
           | LIBERTARIAN_CULT \<Rightarrow> stress_endured n > 70 \<and> coherence n < 0.45))"

definition recovery_times :: "DoctrineType \<rightharpoonup> int" where
  "recovery_times = map_of
     [(MERITOCRATIC, 200), (TRANSCENDENT, 400), (CONSPIRATORIAL, 250),
      (REVOLUTIONARY, 180), (LIBERTARIAN_CULT, 220)]"

definition begin_deradicalization :: "DoctrineType \<Rightarrow> int \<Rightarrow> agent \<Rightarrow> agent" where
  "begin_deradicalization d tick n =
     n\<lparr>deradicalization_timer := (case recovery_times d of None \<Rightarrow> 200 | Some t \<Rightarrow> t),
       doctrine_history := deque_append 50 (doctrine_history n) (tick, Some d, ESCAPE_BEGUN)\<rparr>"

definition deepen_indoctrination :: "int \<Rightarrow> real \<Rightarrow> agent \<Rightarrow> agent" where
  "deepen_indoctrination tick r n =
     (case doctrine_profile n of
        None \<Rightarrow> n
      | Some p \<Rightarrow>
          if check_escape_conditions r n then begin_deradicalization (doctrine_type p) tick n
          else apply_doctrine_effects (n\<lparr>doctrine_profile := Some (update_profile p)\<rparr>))"

definition update_deradicalization :: "int \<Rightarrow> agent \<Rightarrow> agent" where
  "update_deradicalization tick n =
     (if deradicalization_timer n \<le> 0
      then n\<lparr>doctrine_profile := None,
             doctrine_history := deque_append 50 (doctrine_history n) (tick, None, RECOVERED)\<rparr>
      else n\<lparr>deradicalization_timer := deradicalization_timer n - 1,
             coherence := min 1.0 (coherence n + 0.005)\<rparr>)"

definition witness_injustice :: "real \<Rightarrow> ('p, 'a) NPC_scheme \<Rightarrow> ('p, 'a) NPC_scheme" where
  "witness_injustice severity n =
     (let n1 = n\<lparr>injustice_accumulated := injustice_accumulated n + severity\<rparr>
      in if injustice_accumulated n1 > 100 then n1\<lparr>has_witnessed_system_failure := True\<rparr> else n1)"

subsection \<open>Trust and the main update\<close>

definition compute_trustworthiness :: "agent \<Rightarrow> agent" where
  "compute_trustworthiness n =
     (let honors = length (filter (\<lambda>e. length e > 0 \<and> hd e = ''HONOR'') (trust_log n));
          breaks = length (filter (\<lambda>e. length e > 0 \<and> hd e = ''BREAK'') (trust_log n));
          contract_score = (real honors + 1) / (real honors + real breaks + 2);
          stress = min 1.0 (stress_endured n / 100.0);
          resilience = max 0.0 (1.0 - stress);
          tw = (0.6 * contract_score + 0.4 * resilience) * (coherence n * coherence n)
      in n\<lparr>trustworthiness := max 0.0 (min 1.0 tw)\<rparr>)"

definition act :: "anchors \<Rightarrow> Config \<Rightarrow> int \<Rightarrow> Draws \<Rightarrow> agent \<Rightarrow> error + agent" where
  "act anch config tick dr n =
     (case update_state anch config tick dr n of
        Inl e \<Rightarrow> Inl e
      | Inr n1 \<Rightarrow>
          (let n2 = (if doctrine_profile n1 \<noteq> None
                     then deepen_indoctrination tick (r_escape dr) n1 else n1);
               n3 = (if deradicalization_timer n2 > 0 then update_deradicalization tick n2 else n2)
           in Inr (if tick mod 10 = 0 then compute_trustworthiness n3 else n3)))"

subsection \<open>Construction and the world's population (99.py)\<close>

text \<open>
  The default factory of \<^verbatim>\<open>id\<close>, \<^verbatim>\<open>lambda: next(itertools.count(1))\<close>: every call builds
  a counter of its own and takes its first value.
\<close>

definition id_factory :: "unit \<Rightarrow> int" where
  "id_factory u = fst (next_count (itertools_count 1))"

text \<open>\<^verbatim>\<open>__post_init__\<close>: the list of archetypes is built and not used; two assignments.\<close>

definition post_init :: "agent \<Rightarrow> agent" where
  "post_init n = (n\<lparr>archetype := Some PRAGMATIST\<rparr>)\<lparr>archetype := Some PRAGMATIST\<rparr>"

text \<open>
  \<^verbatim>\<open>NPC(x=.., y=.., money=.., energy=.., coherence=.., stress_endured=..)\<close>, the call of
  \<^verbatim>\<open>World.__init__\<close>: the other fields take the dataclass defaults, then
  \<^verbatim>\<open>__post_init__\<close> runs.
\<close>

definition NPC_new :: "real \<Rightarrow> real \<Rightarrow> real \<Rightarrow> real \<Rightarrow> real \<Rightarrow> real \<Rightarrow> agent" where
  "NPC_new x0 y0 money0 energy0 coherence0 stress0 =
     post_init
       \<lparr>x = x0, y = y0, zone = None, state = AT_HOME, target = None, speed = 4.0,
        npc_id = id_factory (), money = money0, energy = energy0, coherence = coherence0,
        self_esteem = 0.7, stress_endured = stress0, skills = Map.empty, trust_log = [],
        pantheon_visit_count = 0, pantheon_doctrine_bias = 0.0,
        pantheon_doctrine_type = None, is_guru = False, travel_budget = 0, work_budget = 0,
        shift_offset = 0, cycle_phase = RESTING, is_collapsing = False,
        trustworthiness = 0.5, trade_dissonance = 0.0, archetype = None,
        doctrine_profile = None, doctrine_history = [], deradicalization_timer = 0,
        injustice_accumulated = 0.0, collapse_cycle_count = 0,
        has_witnessed_system_failure = False\<rparr>"

text \<open>
  The loop of \<^verbatim>\<open>World.__init__\<close>: one agent per element of the list, which holds the four
  random numbers drawn for it (money, energy, coherence, stress); the length of the list
  is \<^verbatim>\<open>num_npcs\<close>.
\<close>

primrec create_npcs ::
  "real \<times> real \<Rightarrow> (real \<times> real \<times> real \<times> real) list \<Rightarrow> agent list \<Rightarrow> agent list" where
  "create_npcs home [] npcs = npcs"
| "create_npcs home (u # us) npcs =
     create_npcs home us
       (npcs @
        [NPC_new (fst home) (snd home)
           (uniform 100 250 (fst u))
           (uniform 70 100 (fst (snd u)))
           (uniform 0.5 0.9 (fst (snd (snd u))))
           (uniform 10 50 (snd (snd (snd u))))])"

definition World_init :: "anchors \<Rightarrow> (real \<times> real \<times> real \<times> real) list \<Rightarrow> error + agent list" where
  "World_init anch us =
     (if us = [] then Inr []
      else case anch HOME of None \<Rightarrow> Inl KeyError | Some home \<Rightarrow> Inr (create_npcs home us []))"

section \<open>The doctrine engine of doctrines.py\<close>

definition DOCTRINE_COMPATIBILITY :: "DoctrineType \<Rightarrow> DoctrineType \<rightharpoonup> real" where
  "DOCTRINE_COMPATIBILITY held =
     (case held of
        MERITOCRATIC \<Rightarrow> map_of
          [(MERITOCRATIC, 0.0), (LIBERTARIAN_CULT, - 0.015), (TRANSCENDENT, 0.02),
           (CONSPIRATORIAL, 0.04), (REVOLUTIONARY, 0.09)]
      | LIBERTARIAN_CULT \<Rightarrow> map_of
          [(MERITOCRATIC, - 0.015), (LIBERTARIAN_CULT, 0.0), (TRANSCENDENT, 0.01),
           (CONSPIRATORIAL, 0.03), (REVOLUTIONARY, 0.07)]
      | TRANSCENDENT \<Rightarrow> map_of
          [(TRANSCENDENT, 0.0), (CONSPIRATORIAL, - 0.01), (MERITOCRATIC, 0.03),
           (LIBERTARIAN_CULT, 0.02), (REVOLUTIONARY, 0.05)]
      | CONSPIRATORIAL \<Rightarrow> map_of
          [(CONSPIRATORIAL, 0.0), (TRANSCENDENT, - 0.01), (REVOLUTIONARY, 0.04),
           (MERITOCRATIC, 0.05), (LIBERTARIAN_CULT, 0.03)]
      | REVOLUTIONARY \<Rightarrow> map_of
          [(REVOLUTIONARY, 0.0), (CONSPIRATORIAL, 0.04), (TRANSCENDENT, 0.05),
           (MERITOCRATIC, 0.10), (LIBERTARIAN_CULT, 0.08)])"

definition DEFAULT_DOCTRINE_TENSION :: real where
  "DEFAULT_DOCTRINE_TENSION = 0.02"

definition get_doctrine_tension :: "DoctrineType \<Rightarrow> DoctrineType \<Rightarrow> real" where
  "get_doctrine_tension doc1 doc2 =
     (if doc1 = doc2 then 0.0
      else case DOCTRINE_COMPATIBILITY doc1 doc2 of
             None \<Rightarrow> DEFAULT_DOCTRINE_TENSION
           | Some t \<Rightarrow> t)"

definition apply_conflict_damage :: "real \<Rightarrow> ConflictProfile \<Rightarrow> ConflictProfile" where
  "apply_conflict_damage tension p =
     p\<lparr>conflict_dissonance := conflict_dissonance p + tension,
       strength := max 0.0 (strength p - tension * 0.3)\<rparr>"

definition ARCHETYPE_VULNERABILITIES :: "NPCArchetype \<Rightarrow> DoctrineType \<rightharpoonup> real" where
  "ARCHETYPE_VULNERABILITIES a =
     (case a of
        PRAGMATIST \<Rightarrow> map_of
          [(MERITOCRATIC, 0.8), (LIBERTARIAN_CULT, 0.7), (TRANSCENDENT, 0.2),
           (CONSPIRATORIAL, 0.3), (REVOLUTIONARY, 0.4)]
      | IDEALIST \<Rightarrow> map_of
          [(TRANSCENDENT, 0.9), (REVOLUTIONARY, 0.85), (CONSPIRATORIAL, 0.4),
           (MERITOCRATIC, 0.5), (LIBERTARIAN_CULT, 0.3)]
      | ANXIOUS \<Rightarrow> map_of
          [(CONSPIRATORIAL, 0.95), (TRANSCENDENT, 0.85), (MERITOCRATIC, 0.6),
           (LIBERTARIAN_CULT, 0.4), (REVOLUTIONARY, 0.3)]
      | OUTSIDER \<Rightarrow> map_of
          [(REVOLUTIONARY, 0.95), (CONSPIRATORIAL, 0.85), (LIBERTARIAN_CULT, 0.7),
           (TRANSCENDENT, 0.3), (MERITOCRATIC, 0.2)]
      | HEDONIST \<Rightarrow> map_of
          [(LIBERTARIAN_CULT, 0.8), (MERITOCRATIC, 0.7), (CONSPIRATORIAL, 0.6),
           (TRANSCENDENT, 0.4), (REVOLUTIONARY, 0.2)])"

text \<open>
  The numeric fields of \<^verbatim>\<open>DoctrineSpec\<close> and the registry \<^verbatim>\<open>DoctrineRegistry.get\<close>; the
  callbacks of a specification are the functions below.
\<close>

record DoctrineSpec =
  forces_zone :: place
  override_frequency :: real
  recovery_time :: int

definition DoctrineRegistry_get :: "DoctrineType \<Rightarrow> DoctrineSpec" where
  "DoctrineRegistry_get d =
     (case d of
        MERITOCRATIC \<Rightarrow> \<lparr>forces_zone = TRADE, override_frequency = 0.8, recovery_time = 200\<rparr>
      | TRANSCENDENT \<Rightarrow> \<lparr>forces_zone = PANTHEON, override_frequency = 0.95, recovery_time = 400\<rparr>
      | CONSPIRATORIAL \<Rightarrow> \<lparr>forces_zone = PANTHEON, override_frequency = 0.85, recovery_time = 250\<rparr>
      | REVOLUTIONARY \<Rightarrow> \<lparr>forces_zone = PANTHEON, override_frequency = 0.9, recovery_time = 180\<rparr>
      | LIBERTARIAN_CULT \<Rightarrow> \<lparr>forces_zone = TRADE, override_frequency = 0.75, recovery_time = 220\<rparr>)"

text \<open>\<^verbatim>\<open>ExposureChecks.revolutionary\<close> and \<^verbatim>\<open>EscapeChecks.transcendent\<close>.\<close>

definition ExposureChecks_revolutionary :: "('p, 'a) NPC_scheme \<Rightarrow> bool" where
  "ExposureChecks_revolutionary n = (collapse_cycle_count n > 2 \<and> coherence n < 0.4)"

definition EscapeChecks_transcendent :: "('p, 'a) NPC_scheme \<Rightarrow> bool" where
  "EscapeChecks_transcendent n = (collapse_cycle_count n > 3 \<and> coherence n < 0.4)"

text \<open>
  \<^verbatim>\<open>init_doctrine_fields\<close> on a host with the fields of \<^verbatim>\<open>NPC\<close>: \<open>choice\<close> is the
  archetype \<^verbatim>\<open>random.choice\<close> returns.
\<close>

definition init_doctrine_fields :: "NPCArchetype \<Rightarrow> ('p, 'a) NPC_scheme \<Rightarrow> MixinNPC" where
  "init_doctrine_fields choice h =
     \<lparr>x = x h, y = y h, zone = zone h, state = state h, target = target h, speed = speed h,
      npc_id = npc_id h, money = money h, energy = energy h, coherence = coherence h,
      self_esteem = self_esteem h, stress_endured = stress_endured h, skills = skills h,
      trust_log = trust_log h, pantheon_visit_count = pantheon_visit_count h,
      pantheon_doctrine_bias = pantheon_doctrine_bias h,
      pantheon_doctrine_type = pantheon_doctrine_type h, is_guru = is_guru h,
      travel_budget = travel_budget h, work_budget = work_budget h,
      shift_offset = shift_offset h, cycle_phase = cycle_phase h,
      is_collapsing = is_collapsing h, trustworthiness = trustworthiness h,
      trade_dissonance = trade_dissonance h, archetype = Some choice,
      doctrine_profile = None, doctrine_history = [], deradicalization_timer = 0,
      injustice_accumulated = 0.0, collapse_cycle_count = 0,
      has_witnessed_system_failure = False, doctrine_conflict_stress = 0.0\<rparr>"

definition mixin_begin_deradicalization :: "DoctrineType \<Rightarrow> int \<Rightarrow> MixinNPC \<Rightarrow> MixinNPC" where
  "mixin_begin_deradicalization d tick n =
     n\<lparr>deradicalization_timer := recovery_time (DoctrineRegistry_get d),
       doctrine_history := deque_append 50 (doctrine_history n) (tick, Some d, ESCAPE_BEGUN)\<rparr>"

text \<open>
  The last part of \<^verbatim>\<open>DoctrineMixin.expose_to_doctrine\<close> (``not indoctrinated or just
  escaped''): the susceptibility draw.
\<close>

definition mixin_try_indoctrinate ::
  "DoctrineType \<Rightarrow> int option \<Rightarrow> int \<Rightarrow> real \<Rightarrow> MixinNPC \<Rightarrow> bool \<times> MixinNPC" where
  "mixin_try_indoctrinate d gid tick r n =
     (let base_vuln = lookup_vulnerability ARCHETYPE_VULNERABILITIES (archetype n) d;
          stress_factor = min 1.0 (stress_endured n / 80.0);
          coherence_factor = (1.0 - coherence n) * 0.5;
          susceptibility = (base_vuln * 0.6 + stress_factor * 0.2 + coherence_factor * 0.2)
      in if susceptibility > r
         then (True,
               n\<lparr>doctrine_profile :=
                   Some \<lparr>doctrine_type = d, strength = 0.1, time_indoctrinated = 0,
                         guru_id = gid, conflict_dissonance = 0.0\<rparr>,
                 doctrine_history :=
                   deque_append 50 (doctrine_history n) (tick, Some d, EXPOSED)\<rparr>)
         else (False, n))"

definition mixin_expose_to_doctrine ::
  "DoctrineType \<Rightarrow> int option \<Rightarrow> int \<Rightarrow> real \<Rightarrow> MixinNPC \<Rightarrow> bool \<times> MixinNPC" where
  "mixin_expose_to_doctrine d gid tick r n =
     (case doctrine_profile n of
        None \<Rightarrow> mixin_try_indoctrinate d gid tick r n
      | Some p \<Rightarrow>
          if doctrine_type p = d
          then (False, n\<lparr>doctrine_profile := Some (p\<lparr>strength := min 1.0 (strength p + 0.01)\<rparr>)\<rparr>)
          else
            (let tension = get_doctrine_tension (doctrine_type p) d
             in if tension < 0
                then (False,
                      n\<lparr>doctrine_profile := Some (p\<lparr>strength := min 1.0 (strength p + \<bar>tension\<bar>)\<rparr>),
                        self_esteem := min 1.0 (self_esteem n + \<bar>tension\<bar> * 0.5)\<rparr>)
                else if tension > 0
                then
                  (let p1 = apply_conflict_damage tension p;
                       n1 = n\<lparr>doctrine_profile := Some p1,
                              doctrine_conflict_stress := doctrine_conflict_stress n + tension,
                              stress_endured := min 100.0 (stress_endured n + tension * 10.0)\<rparr>
                   in (False,
                       if conflict_dissonance p1 > 1.0
                       then mixin_begin_deradicalization (doctrine_type p1) tick
                              (n1\<lparr>doctrine_history :=
                                    deque_append 50 (doctrine_history n1)
                                      (tick, Some (doctrine_type p1), DOCTRINE_COLLAPSE)\<rparr>)
                       else n1))
                else mixin_try_indoctrinate d gid tick r n))"

definition mixin_get_doctrine_override :: "real \<Rightarrow> real \<Rightarrow> MixinNPC \<Rightarrow> place option" where
  "mixin_get_doctrine_override r1 r2 n =
     (case doctrine_profile n of
        None \<Rightarrow> None
      | Some p \<Rightarrow>
          (let spec = DoctrineRegistry_get (doctrine_type p);
               override_strength = override_frequency spec * strength p
           in if r1 > override_strength then None
              else if doctrine_type p = MERITOCRATIC
              then (if money n < 50 then Some TRADE else None)
              else if doctrine_type p = REVOLUTIONARY
              then (if r2 < 0.3 then Some DEVELOPMENT else Some PANTHEON)
              else Some (forces_zone spec)))"

section \<open>Reachable agents\<close>

text \<open>
  The agents of a run: created by \<^verbatim>\<open>World.__init__\<close>, then changed by \<^verbatim>\<open>act\<close> (the
  per-agent tick update, for any anchors, configuration, tick and random draws), by
  exposure attempts and by witnessed injustice.
\<close>

inductive reachable :: "agent \<Rightarrow> bool" where
  created: "World_init anch us = Inr ns \<Longrightarrow> n \<in> set ns \<Longrightarrow> reachable n"
| acted: "reachable n \<Longrightarrow> act anch config tick dr n = Inr n' \<Longrightarrow> reachable n'"
| exposed: "reachable n \<Longrightarrow> expose_to_doctrine d gid tick r n = (b, n') \<Longrightarrow> reachable n'"
| witnessed: "reachable n \<Longrightarrow> reachable (witness_injustice severity n)"

section \<open>Auxiliary predicates and example inputs\<close>

text \<open>
  Two frame predicates: \<open>untouched\<close> for the movement and work functions, which change
  neither the character nor the doctrine fields, and \<open>same_character\<close> for the doctrine
  functions. \<open>collapse_counted\<close> ties the collapse counter to the collapse flag.
\<close>

definition untouched :: "agent \<Rightarrow> agent \<Rightarrow> bool" where
  "untouched n n' =
     (archetype n' = archetype n \<and> is_collapsing n' = is_collapsing n
      \<and> collapse_cycle_count n' = collapse_cycle_count n
      \<and> doctrine_profile n' = doctrine_profile n
      \<and> doctrine_history n' = doctrine_history n
      \<and> deradicalization_timer n' = deradicalization_timer n)"

definition same_character :: "agent \<Rightarrow> agent \<Rightarrow> bool" where
  "same_character n n' =
     (archetype n' = archetype n \<and> is_collapsing n' = is_collapsing n
      \<and> collapse_cycle_count n' = collapse_cycle_count n)"

definition collapse_counted :: "agent \<Rightarrow> bool" where
  "collapse_counted n = (collapse_cycle_count n = (if is_collapsing n then 1 else 0))"

text \<open>
  The fallback configuration of \<^verbatim>\<open>load_config\<close> in \<^verbatim>\<open>99.py\<close>, and the anchors
  \<^verbatim>\<open>_build_anchors\<close> computes from it (width 1200, height 900).
\<close>

definition default_config :: Config where
  "default_config =
     \<lparr>inertia = 0.8, duration = 300, travel_ratio = 0.25,
      zone_travel_costs = map_of
        [(SCIENCE, \<lparr>energy_cost_per_tick = Some 0.15, money_cost_per_tick = Some 0.05\<rparr>),
         (TRADE, \<lparr>energy_cost_per_tick = Some 0.10, money_cost_per_tick = Some 0.03\<rparr>),
         (DEVELOPMENT, \<lparr>energy_cost_per_tick = Some 0.20, money_cost_per_tick = Some 0.08\<rparr>),
         (FLEX, \<lparr>energy_cost_per_tick = Some 0.05, money_cost_per_tick = Some 0.02\<rparr>),
         (PANTHEON, \<lparr>energy_cost_per_tick = Some 0.05, money_cost_per_tick = Some 0.00\<rparr>)]\<rparr>"

definition default_anchors :: anchors where
  "default_anchors = map_of
     [(HOME, (600, 450)), (PANTHEON, (600, 585)), (SCIENCE, (300, 90)), (TRADE, (900, 90)),
      (DEVELOPMENT, (1080, 495)), (FLEX, (120, 495))]"

definition zero_draws :: Draws where
  "zero_draws = \<lparr>r_override = 0, r_revolutionary = 0, r_jitter = (\<lambda>z. 0), r_escape = 0\<rparr>"

text \<open>An agent without money that has just left home for TRADE.\<close>

definition commuter :: agent where
  "commuter =
     (NPC_new 600 450 0 50 0.7 30)
       \<lparr>state := TRAVELING, target := Some TRADE, cycle_phase := COMMUTING\<rparr>"

text \<open>An agent at home whose escape from MERITOCRATIC has one tick of recovery left.\<close>

definition recovering :: agent where
  "recovering =
     (NPC_new 600 450 190 100 0.7 30)
       \<lparr>doctrine_profile :=
           Some \<lparr>doctrine_type = MERITOCRATIC, strength = 0.5, time_indoctrinated = 3,
                 guru_id = None\<rparr>,
         doctrine_history := [(0, Some MERITOCRATIC, ESCAPE_BEGUN)],
         deradicalization_timer := 1\<rparr>"

text \<open>Agents of \<^verbatim>\<open>npc.py\<close> holding a MERITOCRATIC and a weak TRANSCENDENT profile.\<close>

definition merit_holder :: agent where
  "merit_holder =
     (NPC_new 600 450 190 100 0.7 0)
       \<lparr>doctrine_profile :=
           Some \<lparr>doctrine_type = MERITOCRATIC, strength = 0.5, time_indoctrinated = 3,
                 guru_id = None\<rparr>\<rparr>"

definition novice :: agent where
  "novice =
     (NPC_new 600 450 190 100 0.7 0)
       \<lparr>doctrine_profile :=
           Some \<lparr>doctrine_type = TRANSCENDENT, strength = 0.1, time_indoctrinated = 0,
                 guru_id = None\<rparr>\<rparr>"

text \<open>The scenario agent of the specification: PRAGMATIST, stress 60, coherence 0.5.\<close>

definition scenario_agent :: agent where
  "scenario_agent = NPC_new 600 450 10 100 0.5 60"

text \<open>Hosts of the mixin: without a profile, and holding MERITOCRATIC.\<close>

definition mixin_scenario_agent :: MixinNPC where
  "mixin_scenario_agent = init_doctrine_fields PRAGMATIST scenario_agent"

definition mixin_merit_holder :: MixinNPC where
  "mixin_merit_holder =
     (init_doctrine_fields PRAGMATIST (NPC_new 600 450 190 100 0.7 10))
       \<lparr>doctrine_profile :=
           Some \<lparr>doctrine_type = MERITOCRATIC, strength = 0.5, time_indoctrinated = 3,
                 guru_id = None, conflict_dissonance = 0\<rparr>\<rparr>"

text \<open>
  A configuration with a faster decay, the first agent of a world whose draws are all 0,
  that agent after one tick under the faster decay, and an indoctrinated agent under
  high stress.
\<close>

definition harsh_config :: Config where
  "harsh_config = default_config\<lparr>inertia := 0.5\<rparr>"

definition first_agent :: agent where
  "first_agent = NPC_new 600 450 100 70 0.5 10"

definition collapsed_agent :: agent where
  "collapsed_agent =
     first_agent\<lparr>coherence := 0.24, is_collapsing := True, collapse_cycle_count := 1,
       energy := 70.8, stress_endured := 9.7\<rparr>"

definition strained :: agent where
  "strained =
     (NPC_new 600 450 25 80 0.7 99.5)
       \<lparr>doctrine_profile :=
           Some \<lparr>doctrine_type = MERITOCRATIC, strength = 0.5, time_indoctrinated = 3,
                 guru_id = None\<rparr>\<rparr>"

section \<open>Helper lemmas\<close>

lemmas example_defs =
  NPC_new_def post_init_def id_factory_def next_count_def itertools_count_def
  init_doctrine_fields_def default_anchors_def default_config_def zero_draws_def

lemma deque_append_last: "0 < m \<Longrightarrow> last (deque_append m xs v) = v"
  by (simp add: deque_append_def)

lemma tension_nonzero: "d1 \<noteq> d2 \<Longrightarrow> get_doctrine_tension d1 d2 \<noteq> 0"
  by (cases d1; cases d2; simp add: get_doctrine_tension_def DOCTRINE_COMPATIBILITY_def)

text \<open>The distance from the HOME anchor to the TRADE anchor is not below 3.\<close>

lemma hypot_home_trade: "\<not> hypot 300 (- 360) < 3"
proof -
  have "(3::real) \<le> sqrt 219600" by (rule real_le_rsqrt) simp
  then show ?thesis by (simp add: hypot_def)
qed

lemma update_deradicalization_positive:
  assumes "deradicalization_timer n > 0"
  shows "update_deradicalization tick n =
           n\<lparr>deradicalization_timer := deradicalization_timer n - 1,
             coherence := min 1 (coherence n + 0.005)\<rparr>"
  using assms by (simp add: update_deradicalization_def)

subsection \<open>What the state machine and the doctrine functions leave alone\<close>

lemma untouched_refl: "untouched n n"
  by (simp add: untouched_def)

lemma untouched_update:
  "untouched n n' \<Longrightarrow> untouched n (n'\<lparr>x := v1\<rparr>)"
  "untouched n n' \<Longrightarrow> untouched n (n'\<lparr>y := v1\<rparr>)"
  "untouched n n' \<Longrightarrow> untouched n (n'\<lparr>zone := v2\<rparr>)"
  "untouched n n' \<Longrightarrow> untouched n (n'\<lparr>state := v3\<rparr>)"
  "untouched n n' \<Longrightarrow> untouched n (n'\<lparr>target := v2\<rparr>)"
  "untouched n n' \<Longrightarrow> untouched n (n'\<lparr>money := v1\<rparr>)"
  "untouched n n' \<Longrightarrow> untouched n (n'\<lparr>energy := v1\<rparr>)"
  "untouched n n' \<Longrightarrow> untouched n (n'\<lparr>coherence := v1\<rparr>)"
  "untouched n n' \<Longrightarrow> untouched n (n'\<lparr>self_esteem := v1\<rparr>)"
  "untouched n n' \<Longrightarrow> untouched n (n'\<lparr>stress_endured := v1\<rparr>)"
  "untouched n n' \<Longrightarrow> untouched n (n'\<lparr>skills := v4\<rparr>)"
  "untouched n n' \<Longrightarrow> untouched n (n'\<lparr>pantheon_visit_count := v5\<rparr>)"
  "untouched n n' \<Longrightarrow> untouched n (n'\<lparr>pantheon_doctrine_bias := v1\<rparr>)"
  "untouched n n' \<Longrightarrow> untouched n (n'\<lparr>pantheon_doctrine_type := v6\<rparr>)"
  "untouched n n' \<Longrightarrow> untouched n (n'\<lparr>is_guru := v7\<rparr>)"
  "untouched n n' \<Longrightarrow> untouched n (n'\<lparr>travel_budget := v5\<rparr>)"
  "untouched n n' \<Longrightarrow> untouched n (n'\<lparr>work_budget := v5\<rparr>)"
  "untouched n n' \<Longrightarrow> untouched n (n'\<lparr>cycle_phase := v8\<rparr>)"
  "untouched n n' \<Longrightarrow> untouched n (n'\<lparr>trade_dissonance := v1\<rparr>)"
  by (simp_all add: untouched_def)

lemma untouched_if:
  "untouched n a \<Longrightarrow> untouched n b \<Longrightarrow> untouched n (if c then a else b)"
  by simp

lemma untouched_option:
  "untouched n a \<Longrightarrow> (\<And>v. untouched n (f v))
     \<Longrightarrow> untouched n (case opt of None \<Rightarrow> a | Some v \<Rightarrow> f v)"
  by (cases opt) simp_all

lemma untouched_place:
  "untouched n a1 \<Longrightarrow> untouched n a2 \<Longrightarrow> untouched n a3 \<Longrightarrow> untouched n a4
     \<Longrightarrow> untouched n a5 \<Longrightarrow> untouched n a6
     \<Longrightarrow> untouched n (case z of HOME \<Rightarrow> a1 | SCIENCE \<Rightarrow> a2 | TRADE \<Rightarrow> a3
            | DEVELOPMENT \<Rightarrow> a4 | FLEX \<Rightarrow> a5 | PANTHEON \<Rightarrow> a6)"
  by (cases z) simp_all

lemmas untouched_intros =
  untouched_refl untouched_update untouched_if untouched_option untouched_place

lemma untouched_pantheon: "untouched n (work_pantheon n)"
  unfolding work_pantheon_def Let_def by (intro untouched_intros)

lemma untouched_perform_work: "untouched n (perform_work config n)"
  unfolding perform_work_def Let_def by (intro untouched_intros untouched_pantheon)

lemma untouched_move:
  assumes "move_toward_target anch config n = (b, n')"
  shows "untouched n n'"
  using assms unfolding move_toward_target_def Let_def
  by (auto split: option.splits if_splits intro!: untouched_intros)

lemma untouched_traveling: "untouched n (traveling_tick anch config n)"
proof -
  obtain b n1 where m: "move_toward_target anch config n = (b, n1)"
    by (cases "move_toward_target anch config n")
  have "untouched n n1" using m by (rule untouched_move)
  then show ?thesis
    unfolding traveling_tick_def m prod.case
    by (intro untouched_update untouched_if)
qed

lemma untouched_at_home:
  assumes "at_home_tick anch tick dr sd tb wb n = Inr n'"
  shows "untouched n n'"
  using assms unfolding at_home_tick_def Let_def
  by (auto split: if_splits intro!: untouched_intros)

lemma untouched_at_work: "untouched n (at_work_tick config n)"
  unfolding at_work_tick_def Let_def
  by (intro untouched_update untouched_if untouched_perform_work)

lemma decay_coherence_fields:
  "archetype (decay_coherence config n) = archetype n
   \<and> doctrine_profile (decay_coherence config n) = doctrine_profile n
   \<and> doctrine_history (decay_coherence config n) = doctrine_history n
   \<and> deradicalization_timer (decay_coherence config n) = deradicalization_timer n"
  by (simp add: decay_coherence_def on_collapse_def Let_def)

lemma decay_coherence_sticky:
  "is_collapsing n \<Longrightarrow> is_collapsing (decay_coherence config n)
     \<and> collapse_cycle_count (decay_coherence config n) = collapse_cycle_count n"
  by (simp add: decay_coherence_def on_collapse_def Let_def)

lemma decay_coherence_counted:
  "collapse_counted n \<Longrightarrow> collapse_counted (decay_coherence config n)"
  by (simp add: decay_coherence_def on_collapse_def Let_def collapse_counted_def)

lemma update_state_untouched:
  assumes "update_state anch config tick dr n = Inr n'"
  shows "untouched (decay_coherence config n) n'"
proof (cases "state (decay_coherence config n)")
  case AT_HOME
  with assms show ?thesis
    unfolding update_state_def Let_def by (simp add: untouched_at_home)
next
  case TRAVELING
  with assms show ?thesis
    unfolding update_state_def Let_def using untouched_traveling by auto
next
  case AT_WORK
  with assms show ?thesis
    unfolding update_state_def Let_def using untouched_at_work untouched_refl
    by (auto split: if_splits)
qed


lemma same_character_refl: "same_character n n"
  by (simp add: same_character_def)

lemma same_character_update:
  "same_character n n' \<Longrightarrow> same_character n (n'\<lparr>doctrine_profile := v1\<rparr>)"
  "same_character n n' \<Longrightarrow> same_character n (n'\<lparr>doctrine_history := v2\<rparr>)"
  "same_character n n' \<Longrightarrow> same_character n (n'\<lparr>deradicalization_timer := v3\<rparr>)"
  "same_character n n' \<Longrightarrow> same_character n (n'\<lparr>self_esteem := v4\<rparr>)"
  "same_character n n' \<Longrightarrow> same_character n (n'\<lparr>stress_endured := v4\<rparr>)"
  "same_character n n' \<Longrightarrow> same_character n (n'\<lparr>coherence := v4\<rparr>)"
  "same_character n n' \<Longrightarrow> same_character n (n'\<lparr>trustworthiness := v4\<rparr>)"
  "same_character n n' \<Longrightarrow> same_character n (n'\<lparr>injustice_accumulated := v4\<rparr>)"
  "same_character n n' \<Longrightarrow> same_character n (n'\<lparr>has_witnessed_system_failure := v5\<rparr>)"
  by (simp_all add: same_character_def)

lemma same_character_if:
  "same_character n a \<Longrightarrow> same_character n b \<Longrightarrow> same_character n (if c then a else b)"
  by simp

lemma same_character_option:
  "same_character n a \<Longrightarrow> (\<And>v. same_character n (f v))
     \<Longrightarrow> same_character n (case opt of None \<Rightarrow> a | Some v \<Rightarrow> f v)"
  by (cases opt) simp_all

lemma same_character_doctrine:
  "same_character n a1 \<Longrightarrow> same_character n a2 \<Longrightarrow> same_character n a3
     \<Longrightarrow> same_character n a4 \<Longrightarrow> same_character n a5
     \<Longrightarrow> same_character n (case d of MERITOCRATIC \<Rightarrow> a1 | TRANSCENDENT \<Rightarrow> a2
            | CONSPIRATORIAL \<Rightarrow> a3 | REVOLUTIONARY \<Rightarrow> a4 | LIBERTARIAN_CULT \<Rightarrow> a5)"
  by (cases d) simp_all

lemmas same_character_intros =
  same_character_refl same_character_update same_character_if same_character_option
  same_character_doctrine

lemma same_character_trans:
  "same_character a b \<Longrightarrow> same_character b c \<Longrightarrow> same_character a c"
  by (simp add: same_character_def)

lemma untouched_same_character: "untouched a b \<Longrightarrow> same_character a b"
  by (simp add: untouched_def same_character_def)

lemma same_character_expose:
  assumes "expose_to_doctrine d gid tick r n = (b, n')"
  shows "same_character n n'"
  using assms unfolding expose_to_doctrine_def Let_def
  by (auto split: if_splits intro!: same_character_intros)

lemma same_character_effects: "same_character n (apply_doctrine_effects n)"
  unfolding apply_doctrine_effects_def by (intro same_character_intros)

lemma same_character_deepen: "same_character n (deepen_indoctrination tick r n)"
proof -
  have "same_character n (apply_doctrine_effects (n\<lparr>doctrine_profile := v\<rparr>))" for v
    by (rule same_character_trans [OF _ same_character_effects]) (intro same_character_intros)
  then show ?thesis
    unfolding deepen_indoctrination_def begin_deradicalization_def
    by (intro same_character_intros)
qed

lemma same_character_derad: "same_character n (update_deradicalization tick n)"
  unfolding update_deradicalization_def by (intro same_character_intros)

lemma same_character_trust: "same_character n (compute_trustworthiness n)"
  unfolding compute_trustworthiness_def Let_def by (intro same_character_intros)

lemma same_character_witness: "same_character n (witness_injustice severity n)"
  unfolding witness_injustice_def Let_def by (intro same_character_intros)

lemma act_same_character:
  assumes "act anch config tick dr n = Inr n'"
  shows "same_character (decay_coherence config n) n'"
proof -
  from assms obtain n1 where u: "update_state anch config tick dr n = Inr n1"
    by (auto simp add: act_def split: sum.splits)
  define n2 where "n2 = (if doctrine_profile n1 \<noteq> None
                     then deepen_indoctrination tick (r_escape dr) n1 else n1)"
  define n3 where "n3 = (if deradicalization_timer n2 > 0 then update_deradicalization tick n2 else n2)"
  have n': "n' = (if tick mod 10 = 0 then compute_trustworthiness n3 else n3)"
    using assms [symmetric] unfolding act_def u n2_def n3_def Let_def by simp
  have "same_character (decay_coherence config n) n1"
    using u by (intro untouched_same_character update_state_untouched)
  moreover have "same_character n1 n2"
    unfolding n2_def by (intro same_character_if same_character_deepen same_character_refl)
  moreover have "same_character n2 n3"
    unfolding n3_def by (intro same_character_if same_character_derad same_character_refl)
  moreover have "same_character n3 n'"
    unfolding n' by (intro same_character_if same_character_trust same_character_refl)
  ultimately show ?thesis by (blast intro: same_character_trans)
qed

lemma act_character:
  assumes "act anch config tick dr n = Inr n'"
  shows "archetype n' = archetype n"
    and "is_collapsing n \<Longrightarrow> is_collapsing n' \<and> collapse_cycle_count n' = collapse_cycle_count n"
    and "collapse_counted n \<Longrightarrow> collapse_counted n'"
  using act_same_character [OF assms] decay_coherence_fields [of config n]
    decay_coherence_sticky [of n config] decay_coherence_counted [of n config]
  by (simp_all add: same_character_def collapse_counted_def)

lemma profile_effects: "doctrine_profile (apply_doctrine_effects n) = doctrine_profile n"
  by (simp add: apply_doctrine_effects_def split: option.split DoctrineType.split)

lemma deepen_keeps_profile:
  "doctrine_profile n \<noteq> None \<Longrightarrow> doctrine_profile (deepen_indoctrination tick r n) \<noteq> None"
  by (auto simp add: deepen_indoctrination_def begin_deradicalization_def profile_effects)

lemma act_keeps_profile:
  assumes "act anch config tick dr n = Inr n'" and "doctrine_profile n \<noteq> None"
  shows "doctrine_profile n' \<noteq> None"
proof -
  from assms obtain n1 where u: "update_state anch config tick dr n = Inr n1"
    by (auto simp add: act_def split: sum.splits)
  define n2 where "n2 = (if doctrine_profile n1 \<noteq> None
                     then deepen_indoctrination tick (r_escape dr) n1 else n1)"
  define n3 where "n3 = (if deradicalization_timer n2 > 0 then update_deradicalization tick n2 else n2)"
  have n': "n' = (if tick mod 10 = 0 then compute_trustworthiness n3 else n3)"
    using assms(1) [symmetric] unfolding act_def u n2_def n3_def Let_def by simp
  have "doctrine_profile n1 = doctrine_profile n"
    using update_state_untouched [OF u] decay_coherence_fields [of config n]
    by (simp add: untouched_def)
  with assms have "doctrine_profile n2 \<noteq> None"
    by (simp add: n2_def deepen_keeps_profile)
  then have "doctrine_profile n3 \<noteq> None"
    by (simp add: n3_def update_deradicalization_def)
  then show ?thesis by (simp add: n' compute_trustworthiness_def Let_def)
qed

subsection \<open>Construction, reachable agents and the example runs\<close>

lemma NPC_new_fields:
  "npc_id (NPC_new a b c d e f) = 1"
  "archetype (NPC_new a b c d e f) = Some PRAGMATIST"
  "is_collapsing (NPC_new a b c d e f) = False"
  "collapse_cycle_count (NPC_new a b c d e f) = 0"
  by (simp_all add: example_defs)

lemma create_npcs_all:
  assumes "\<forall>n \<in> set npcs. P n" and "\<And>a b c d e f. P (NPC_new a b c d e f)"
  shows "\<forall>n \<in> set (create_npcs home us npcs). P n"
  using assms(1)
proof (induction us arbitrary: npcs)
  case Nil
  then show ?case by simp
next
  case (Cons u us)
  show ?case
    unfolding create_npcs.simps
    by (rule Cons.IH) (use Cons.prems assms(2) in auto)
qed

lemma World_init_all:
  assumes "World_init anch us = Inr ns" and "\<And>a b c d e f. P (NPC_new a b c d e f)"
  shows "\<forall>n \<in> set ns. P n"
proof (cases "us = []")
  case True
  with assms(1) show ?thesis by (simp add: World_init_def)
next
  case False
  with assms(1) obtain home where "ns = create_npcs home us []"
    by (auto simp add: World_init_def split: option.splits)
  then show ?thesis using create_npcs_all [of "[]" P home us] assms(2) by simp
qed

lemma reachable_invariant:
  assumes "reachable n"
  shows "archetype n = Some PRAGMATIST \<and> collapse_counted n"
  using assms
proof (induction rule: reachable.induct)
  case (created anch us ns n)
  have "\<forall>n \<in> set ns. archetype n = Some PRAGMATIST \<and> collapse_counted n"
    using created(1) by (rule World_init_all) (simp add: NPC_new_fields collapse_counted_def)
  with created(2) show ?case by blast
next
  case (acted n anch config tick dr n')
  then show ?case using act_character [OF acted(2)] by simp
next
  case (exposed n d gid tick r b n')
  then show ?case using same_character_expose [OF exposed(2)]
    by (simp add: same_character_def collapse_counted_def)
next
  case (witnessed n severity)
  then show ?case using same_character_witness [of n severity]
    by (simp add: same_character_def collapse_counted_def)
qed

lemma decay_coherence_sets:
  "\<not> is_collapsing n \<Longrightarrow>
     is_collapsing (decay_coherence config n) =
       (max 0 (min 1 (coherence n * inertia config - stress_endured n * 0.001)) < 0.3)"
proof -
  define c where "c = max 0.0 (min 1.0 (coherence n * inertia config - stress_endured n * 0.001))"
  assume "\<not> is_collapsing n"
  then have "is_collapsing (decay_coherence config n) = (c < 0.3)"
    unfolding decay_coherence_def Let_def c_def [symmetric]
    by (simp add: on_collapse_def)
  then show ?thesis by (simp add: c_def)
qed

lemma World_init_ids:
  assumes "World_init anch us = Inr ns"
  shows "\<forall>n \<in> set ns. npc_id n = 1"
  using assms by (rule World_init_all) (simp add: NPC_new_fields)

lemmas act_defs =
  act_def update_state_def decay_coherence_def on_collapse_def traveling_tick_def
  at_home_tick_def move_toward_target_def deepen_indoctrination_def check_escape_conditions_def
  update_profile_def apply_doctrine_effects_def update_deradicalization_def hypot_home_trade

lemma World_init_first_agent: "World_init default_anchors [(0, 0, 0, 0)] = Inr [first_agent]"
  by (simp add: World_init_def default_anchors_def first_agent_def uniform_def)

lemma reachable_first_agent: "reachable first_agent"
  by (rule reachable.created [OF World_init_first_agent]) simp

lemma act_first_agent:
  "act default_anchors harsh_config 1 zero_draws first_agent = Inr collapsed_agent"
  by (simp add: act_defs Let_def first_agent_def collapsed_agent_def harsh_config_def example_defs)

lemma reachable_collapsed_agent: "reachable collapsed_agent"
  by (rule reachable.acted [OF reachable_first_agent act_first_agent])

subsection \<open>The mixin's exposure of an agent that holds a doctrine\<close>

lemma mixin_holder_keeps_doctrine:
  assumes "doctrine_profile m = Some q"
  shows "\<exists>q' m'. mixin_expose_to_doctrine d gid tick r m = (False, m')
           \<and> doctrine_profile m' = Some q' \<and> doctrine_type q' = doctrine_type q"
proof (cases "doctrine_type q = d")
  case True
  with assms show ?thesis by (simp add: mixin_expose_to_doctrine_def)
next
  case False
  then have "get_doctrine_tension (doctrine_type q) d \<noteq> 0" by (rule tension_nonzero)
  with assms False show ?thesis
    by (auto simp add: mixin_expose_to_doctrine_def Let_def apply_conflict_damage_def
        mixin_begin_deradicalization_def)
qed

lemma revolution_merit_conflict:
  assumes "doctrine_profile m = Some q" and "doctrine_type q = REVOLUTIONARY"
    and "conflict_dissonance q = 0"
  shows "mixin_expose_to_doctrine MERITOCRATIC gid tick r m =
           (False,
            m\<lparr>doctrine_profile :=
                Some (q\<lparr>conflict_dissonance := 0.10, strength := max 0 (strength q - 0.03)\<rparr>),
              doctrine_conflict_stress := doctrine_conflict_stress m + 0.10,
              stress_endured := min 100 (stress_endured m + 1.0)\<rparr>)"
  using assms
  by (simp add: mixin_expose_to_doctrine_def get_doctrine_tension_def DOCTRINE_COMPATIBILITY_def
      apply_conflict_damage_def Let_def)

section \<open>The claims\<close>

text \<open>
  Claim C1, amended. \<^verbatim>\<open>DoctrineMixin.expose_to_doctrine\<close> on an agent that holds a
  profile returns False and leaves the doctrine type of the profile as it was, whatever the
  incoming doctrine. \<^verbatim>\<open>NPC.expose_to_doctrine\<close> does so when the incoming doctrine is the
  one held; it has no branch for a different doctrine and goes on to the susceptibility
  draw, as for an agent without a profile: when the susceptibility exceeds the draw it
  returns True and puts a fresh profile of the incoming doctrine in place of the held one,
  otherwise it returns False and changes nothing.
\<close>

theorem exposure_of_a_holder:
  assumes "doctrine_profile m = Some q" and "doctrine_profile n = Some p"
  shows "(\<exists>q' m'. mixin_expose_to_doctrine d gid tick r m = (False, m')
            \<and> doctrine_profile m' = Some q' \<and> doctrine_type q' = doctrine_type q)
       \<and> (doctrine_type p = d \<longrightarrow>
            (\<exists>p' n'. expose_to_doctrine d gid tick r n = (False, n')
               \<and> doctrine_profile n' = Some p' \<and> doctrine_type p' = doctrine_type p))
       \<and> (doctrine_type p \<noteq> d \<longrightarrow>
            expose_to_doctrine d gid tick r n =
              (if 0.6 * lookup_vulnerability vulnerability (archetype n) d
                    + 0.2 * min 1 (stress_endured n / 80)
                    + 0.2 * (1 - coherence n) * 0.5 > r
               then (True,
                     n\<lparr>doctrine_profile :=
                         Some \<lparr>doctrine_type = d, strength = 0.1, time_indoctrinated = 0,
                               guru_id = gid\<rparr>,
                       doctrine_history :=
                         deque_append 50 (doctrine_history n) (tick, Some d, EXPOSED)\<rparr>)
               else (False, n)))"
proof -
  have a: "base * 0.6 + s * 0.2 + (1 - c) * 0.5 * 0.2 = 0.6 * base + 0.2 * s + 0.2 * (1 - c) * 0.5"
    for base s c :: real by simp
  have "doctrine_type p = d \<Longrightarrow>
          \<exists>p' n'. expose_to_doctrine d gid tick r n = (False, n')
             \<and> doctrine_profile n' = Some p' \<and> doctrine_type p' = doctrine_type p"
    using assms(2) by (simp add: expose_to_doctrine_def)
  moreover have "doctrine_type p \<noteq> d \<Longrightarrow>
          expose_to_doctrine d gid tick r n =
              (if 0.6 * lookup_vulnerability vulnerability (archetype n) d
                    + 0.2 * min 1 (stress_endured n / 80)
                    + 0.2 * (1 - coherence n) * 0.5 > r
               then (True,
                     n\<lparr>doctrine_profile :=
                         Some \<lparr>doctrine_type = d, strength = 0.1, time_indoctrinated = 0,
                               guru_id = gid\<rparr>,
                       doctrine_history :=
                         deque_append 50 (doctrine_history n) (tick, Some d, EXPOSED)\<rparr>)
               else (False, n))"
    unfolding expose_to_doctrine_def Let_def a using assms(2) by simp
  ultimately show ?thesis
    using mixin_holder_keeps_doctrine [OF assms(1)] by blast
qed

theorem exposure_of_a_holder_witness:
  "(\<exists>q' m'. mixin_expose_to_doctrine REVOLUTIONARY (Some 1) 7 0.3 mixin_merit_holder = (False, m')
       \<and> doctrine_profile m' = Some q' \<and> doctrine_type q' = MERITOCRATIC)
   \<and> (\<exists>p' n'. expose_to_doctrine MERITOCRATIC (Some 1) 7 0.3 merit_holder = (False, n')
       \<and> doctrine_profile n' = Some p' \<and> doctrine_type p' = MERITOCRATIC)
   \<and> expose_to_doctrine REVOLUTIONARY (Some 1) 7 0.33 merit_holder = (False, merit_holder)"
proof -
  have h1: "doctrine_profile merit_holder =
              Some \<lparr>doctrine_type = MERITOCRATIC, strength = 0.5, time_indoctrinated = 3,
                    guru_id = None\<rparr>"
    by (simp add: merit_holder_def)
  have h2: "doctrine_profile mixin_merit_holder =
              Some \<lparr>doctrine_type = MERITOCRATIC, strength = 0.5, time_indoctrinated = 3,
                    guru_id = None, conflict_dissonance = 0\<rparr>"
    by (simp add: mixin_merit_holder_def)
  have f: "archetype merit_holder = Some PRAGMATIST" "stress_endured merit_holder = 0"
    "coherence merit_holder = 0.7"
    by (simp_all add: merit_holder_def example_defs)
  show ?thesis
    using exposure_of_a_holder [OF h2 h1, where d = REVOLUTIONARY and gid = "Some 1" and tick = 7 and r = "0.3"]
      exposure_of_a_holder [OF h2 h1, where d = MERITOCRATIC and gid = "Some 1" and tick = 7 and r = "0.3"]
      exposure_of_a_holder [OF h2 h1, where d = REVOLUTIONARY and gid = "Some 1" and tick = 7 and r = "0.33"]
    by (simp add: f lookup_vulnerability_def vulnerability_def)
qed

text \<open>
  The claim as stated fails for \<^verbatim>\<open>NPC.expose_to_doctrine\<close>: a holder of MERITOCRATIC
  exposed to REVOLUTIONARY with the draw 0.3 (susceptibility 0.33) adopts REVOLUTIONARY and
  the call returns True.
\<close>

theorem held_doctrine_replaced_by_npc_exposure:
  "doctrine_profile merit_holder =
     Some \<lparr>doctrine_type = MERITOCRATIC, strength = 0.5, time_indoctrinated = 3, guru_id = None\<rparr>
   \<and> expose_to_doctrine REVOLUTIONARY (Some 1) 7 0.3 merit_holder =
       (True,
        merit_holder
          \<lparr>doctrine_profile :=
             Some \<lparr>doctrine_type = REVOLUTIONARY, strength = 0.1, time_indoctrinated = 0,
                   guru_id = Some 1\<rparr>,
           doctrine_history := [(7, Some REVOLUTIONARY, EXPOSED)]\<rparr>)"
  by (simp add: expose_to_doctrine_def merit_holder_def example_defs lookup_vulnerability_def
      vulnerability_def deque_append_def Let_def)

text \<open>
  Claim C2. While the timer is positive each update lowers it by 1, but the update that
  takes it from 1 to 0 does not clear the profile and logs nothing: the clearing branch of
  \<^verbatim>\<open>update_deradicalization\<close> needs a timer that is already 0, and \<^verbatim>\<open>act\<close> calls the
  function only while the timer is positive. The evaluation below runs \<^verbatim>\<open>act\<close> on the agent
  \<open>recovering\<close> (timer 1): the timer reaches 0, the MERITOCRATIC profile is still held and
  is strengthened, the history has no RECOVERED entry, and the next tick leaves all that
  unchanged. Lemma \<open>update_deradicalization_positive\<close> is the update for any positive
  timer and lemma \<open>act_keeps_profile\<close> the general fact: \<^verbatim>\<open>act\<close> never clears a profile.
\<close>

theorem timer_expiry_keeps_profile:
  "act default_anchors default_config 1 zero_draws recovering =
     Inr (recovering
            \<lparr>coherence := 0.535, energy := 100, stress_endured := 29.7, self_esteem := 0.72,
             doctrine_profile :=
               Some \<lparr>doctrine_type = MERITOCRATIC, strength = 0.52, time_indoctrinated = 4,
                     guru_id = None\<rparr>,
             deradicalization_timer := 0\<rparr>)
   \<and> doctrine_history recovering = [(0, Some MERITOCRATIC, ESCAPE_BEGUN)]
   \<and> map_sum id (\<lambda>n. (deradicalization_timer n, map_option doctrine_type (doctrine_profile n),
                        doctrine_history n))
        (act default_anchors default_config 2 zero_draws
           (recovering
              \<lparr>coherence := 0.535, energy := 100, stress_endured := 29.7, self_esteem := 0.72,
               doctrine_profile :=
                 Some \<lparr>doctrine_type = MERITOCRATIC, strength = 0.52, time_indoctrinated = 4,
                       guru_id = None\<rparr>,
               deradicalization_timer := 0\<rparr>)) =
       Inr (0, Some MERITOCRATIC, [(0, Some MERITOCRATIC, ESCAPE_BEGUN)])"
  by (simp add: act_defs Let_def recovering_def example_defs)

text \<open>
  Claim C3. The default factory of \<^verbatim>\<open>id\<close> builds a new counter at every call, so every
  agent gets the id 1 (lemma \<open>World_init_ids\<close>); a world of two agents holds the ids 1
  and 1.
\<close>

theorem world_init_repeats_ids:
  "map_sum id (map npc_id)
     (World_init default_anchors [(0, 0, 0, 0), (0.5, 0.5, 0.5, 0.5)]) = Inr [1, 1]"
  by (simp add: World_init_def default_anchors_def NPC_new_fields)

text \<open>
  Claim C4. Two ticks that leave the bounds. The agent \<open>commuter\<close> has left home for
  TRADE with no money: \<^verbatim>\<open>move_toward_target\<close> debits the travel cost without clamping and
  the money is -0.03 after \<^verbatim>\<open>act\<close>. The agent \<open>strained\<close> holds MERITOCRATIC with
  money 25 and stress 99.5: the doctrine effect of \<^verbatim>\<open>npc.py\<close> adds 2.0 to the stress
  without the cap that \<^verbatim>\<open>perform_work\<close> and the other doctrine effects apply, and the
  stress is 101.2 after \<^verbatim>\<open>act\<close>.
\<close>

theorem travel_and_doctrine_break_bounds:
  "money commuter = 0
   \<and> map_sum id (\<lambda>n. (state n, target n, money n, energy n))
        (act default_anchors default_config 1 zero_draws commuter) =
       Inr (TRAVELING, Some TRADE, - 0.03, 49.9)
   \<and> stress_endured strained = 99.5
   \<and> act default_anchors default_config 1 zero_draws strained =
       Inr (strained
              \<lparr>coherence := 0.4605, energy := 80.8, self_esteem := 0.67,
               stress_endured := 101.2,
               doctrine_profile :=
                 Some \<lparr>doctrine_type = MERITOCRATIC, strength = 0.52, time_indoctrinated = 4,
                       guru_id = None\<rparr>\<rparr>)"
  by (simp add: act_defs Let_def commuter_def strained_def example_defs)

text \<open>
  Claim C5, amended. For an agent holding a MERITOCRATIC profile with dissonance 0, one
  exposure to REVOLUTIONARY in \<^verbatim>\<open>DoctrineMixin.expose_to_doctrine\<close> does not depend on the
  draw and produces: tension 0.09, dissonance 0.09, strength lowered by 0.027 (not below
  0), stress raised by 0.9 (not above 100), and the agent's conflict stress raised by 0.09.
  The values 0.10, 0.03 and 1.0 belong to the opposite pair, REVOLUTIONARY held and
  MERITOCRATIC encountered (lemma \<open>revolution_merit_conflict\<close>).
\<close>

theorem merit_revolution_conflict:
  assumes "doctrine_profile m = Some q" and "doctrine_type q = MERITOCRATIC"
    and "conflict_dissonance q = 0"
  shows "get_doctrine_tension MERITOCRATIC REVOLUTIONARY = 0.09
       \<and> mixin_expose_to_doctrine REVOLUTIONARY gid tick r m =
           (False,
            m\<lparr>doctrine_profile :=
                Some (q\<lparr>conflict_dissonance := 0.09, strength := max 0 (strength q - 0.027)\<rparr>),
              doctrine_conflict_stress := doctrine_conflict_stress m + 0.09,
              stress_endured := min 100 (stress_endured m + 0.9)\<rparr>)
       \<and> mixin_expose_to_doctrine REVOLUTIONARY gid tick r m =
           mixin_expose_to_doctrine REVOLUTIONARY gid tick r' m"
proof -
  have t: "get_doctrine_tension MERITOCRATIC REVOLUTIONARY = 0.09"
    by (simp add: get_doctrine_tension_def DOCTRINE_COMPATIBILITY_def)
  have e: "mixin_expose_to_doctrine REVOLUTIONARY gid tick s m =
           (False,
            m\<lparr>doctrine_profile :=
                Some (q\<lparr>conflict_dissonance := 0.09, strength := max 0 (strength q - 0.027)\<rparr>),
              doctrine_conflict_stress := doctrine_conflict_stress m + 0.09,
              stress_endured := min 100 (stress_endured m + 0.9)\<rparr>)" for s
    using assms by (simp add: mixin_expose_to_doctrine_def t apply_conflict_damage_def Let_def)
  show ?thesis using t e by simp
qed

theorem merit_revolution_conflict_witness:
  "mixin_expose_to_doctrine REVOLUTIONARY None 7 0 mixin_merit_holder =
     (False,
      mixin_merit_holder
        \<lparr>doctrine_profile :=
           Some \<lparr>doctrine_type = MERITOCRATIC, strength = 0.473, time_indoctrinated = 3,
                 guru_id = None, conflict_dissonance = 0.09\<rparr>,
         doctrine_conflict_stress := 0.09,
         stress_endured := 10.9\<rparr>)"
proof -
  have h: "doctrine_profile mixin_merit_holder =
              Some \<lparr>doctrine_type = MERITOCRATIC, strength = 0.5, time_indoctrinated = 3,
                    guru_id = None, conflict_dissonance = 0\<rparr>"
    by (simp add: mixin_merit_holder_def)
  have f: "stress_endured mixin_merit_holder = 10" "doctrine_conflict_stress mixin_merit_holder = 0"
    by (simp_all add: mixin_merit_holder_def example_defs)
  show ?thesis
    using merit_revolution_conflict [OF h, where gid = None and tick = 7 and r = 0]
    by (simp add: f)
qed

text \<open>The claim as stated fails: the dissonance is 0.09, the strength 0.473 after 0.5, the
  stress 10.9 after 10.\<close>

theorem merit_revolution_conflict_values:
  "doctrine_profile mixin_merit_holder =
     Some \<lparr>doctrine_type = MERITOCRATIC, strength = 0.5, time_indoctrinated = 3,
           guru_id = None, conflict_dissonance = 0\<rparr>
   \<and> stress_endured mixin_merit_holder = 10
   \<and> get_doctrine_tension MERITOCRATIC REVOLUTIONARY = 0.09
   \<and> mixin_expose_to_doctrine REVOLUTIONARY None 7 0.5 mixin_merit_holder =
       (False,
        mixin_merit_holder
          \<lparr>doctrine_profile :=
             Some \<lparr>doctrine_type = MERITOCRATIC, strength = 0.473, time_indoctrinated = 3,
                   guru_id = None, conflict_dissonance = 0.09\<rparr>,
           doctrine_conflict_stress := 0.09,
           stress_endured := 10.9\<rparr>)"
  by (simp add: mixin_expose_to_doctrine_def get_doctrine_tension_def DOCTRINE_COMPATIBILITY_def
      apply_conflict_damage_def mixin_merit_holder_def example_defs Let_def)

text \<open>
  Claim C6, amended. For an agent holding a profile,
  \<^verbatim>\<open>DoctrineMixin.get_doctrine_override\<close> returns None when the first draw exceeds the
  override frequency times the strength; \<^verbatim>\<open>NPC.get_doctrine_override\<close> returns None when
  the draw exceeds the override frequency alone, whatever the strength. In both, a draw
  that does not exceed the threshold makes MERITOCRATIC force TRADE only if money is below
  50 (otherwise None), REVOLUTIONARY force DEVELOPMENT when the second draw is below 0.3
  and PANTHEON otherwise, and every other doctrine force its configured zone. For the mixin
  and a doctrine whose success always forces a zone, the draws of the unit interval that
  give None are exactly those above frequency times strength.
\<close>

theorem doctrine_override_thresholds:
  assumes "doctrine_profile m = Some q" and "doctrine_profile n = Some p"
  shows "mixin_get_doctrine_override r1 r2 m =
           (if r1 > override_frequency (DoctrineRegistry_get (doctrine_type q)) * strength q then None
            else if doctrine_type q = MERITOCRATIC then (if money m < 50 then Some TRADE else None)
            else if doctrine_type q = REVOLUTIONARY
            then (if r2 < 0.3 then Some DEVELOPMENT else Some PANTHEON)
            else Some (forces_zone (DoctrineRegistry_get (doctrine_type q))))
       \<and> get_doctrine_override r1 r2 n =
           (if r1 > override_frequency (DoctrineRegistry_get (doctrine_type p)) then None
            else if doctrine_type p = MERITOCRATIC then (if money n < 50 then Some TRADE else None)
            else if doctrine_type p = REVOLUTIONARY
            then (if r2 < 0.3 then Some DEVELOPMENT else Some PANTHEON)
            else Some (forces_zone (DoctrineRegistry_get (doctrine_type p))))
       \<and> (doctrine_type q \<noteq> MERITOCRATIC \<or> money m < 50 \<longrightarrow>
            {r \<in> {0..<1}. mixin_get_doctrine_override r r2 m = None} =
            {r \<in> {0..<1}. override_frequency (DoctrineRegistry_get (doctrine_type q)) * strength q < r})"
proof -
  have m: "mixin_get_doctrine_override s r2 m =
           (if s > override_frequency (DoctrineRegistry_get (doctrine_type q)) * strength q then None
            else if doctrine_type q = MERITOCRATIC then (if money m < 50 then Some TRADE else None)
            else if doctrine_type q = REVOLUTIONARY
            then (if r2 < 0.3 then Some DEVELOPMENT else Some PANTHEON)
            else Some (forces_zone (DoctrineRegistry_get (doctrine_type q))))" for s
    using assms(1) by (simp add: mixin_get_doctrine_override_def Let_def)
  have n: "get_doctrine_override r1 r2 n =
           (if r1 > override_frequency (DoctrineRegistry_get (doctrine_type p)) then None
            else if doctrine_type p = MERITOCRATIC then (if money n < 50 then Some TRADE else None)
            else if doctrine_type p = REVOLUTIONARY
            then (if r2 < 0.3 then Some DEVELOPMENT else Some PANTHEON)
            else Some (forces_zone (DoctrineRegistry_get (doctrine_type p))))"
    using assms(2)
    by (cases "doctrine_type p")
      (simp_all add: get_doctrine_override_def overrides_def DoctrineRegistry_get_def Let_def)
  have s: "{r \<in> {0..<1}. mixin_get_doctrine_override r r2 m = None} =
            {r \<in> {0..<1}. override_frequency (DoctrineRegistry_get (doctrine_type q)) * strength q < r}"
    if "doctrine_type q \<noteq> MERITOCRATIC \<or> money m < 50"
    using that unfolding m by auto
  from m [of r1] n s show ?thesis by blast
qed

theorem doctrine_override_thresholds_witness:
  "mixin_get_doctrine_override 0.5 0 mixin_merit_holder = None
   \<and> mixin_get_doctrine_override 0.4 0 mixin_merit_holder = None
   \<and> mixin_get_doctrine_override 0.4 0 (mixin_merit_holder\<lparr>money := 40\<rparr>) = Some TRADE
   \<and> get_doctrine_override 0.5 0 novice = Some PANTHEON
   \<and> get_doctrine_override 0.96 0 novice = None"
proof -
  have h1: "doctrine_profile novice =
     Some \<lparr>doctrine_type = TRANSCENDENT, strength = 0.1, time_indoctrinated = 0, guru_id = None\<rparr>"
    by (simp add: novice_def)
  have h2: "doctrine_profile mixin_merit_holder =
              Some \<lparr>doctrine_type = MERITOCRATIC, strength = 0.5, time_indoctrinated = 3,
                    guru_id = None, conflict_dissonance = 0\<rparr>"
    by (simp add: mixin_merit_holder_def)
  have h3: "doctrine_profile (mixin_merit_holder\<lparr>money := 40\<rparr>) =
              Some \<lparr>doctrine_type = MERITOCRATIC, strength = 0.5, time_indoctrinated = 3,
                    guru_id = None, conflict_dissonance = 0\<rparr>"
    by (simp add: mixin_merit_holder_def)
  have f: "money mixin_merit_holder = 190"
    by (simp add: mixin_merit_holder_def example_defs)
  show ?thesis
    using doctrine_override_thresholds [OF h2 h1, where ?r1.0 = "0.5" and ?r2.0 = 0]
      doctrine_override_thresholds [OF h2 h1, where ?r1.0 = "0.4" and ?r2.0 = 0]
      doctrine_override_thresholds [OF h3 h1, where ?r1.0 = "0.4" and ?r2.0 = 0]
      doctrine_override_thresholds [OF h2 h1, where ?r1.0 = "0.96" and ?r2.0 = 0]
    by (simp add: f DoctrineRegistry_get_def)
qed

text \<open>
  The claim as stated fails for \<^verbatim>\<open>NPC.get_doctrine_override\<close>: with a TRANSCENDENT
  profile of strength 0.1 and the draw 0.5, above 0.95 * 0.1, the call still forces
  PANTHEON.
\<close>

theorem weak_profile_overrides_in_npc:
  "doctrine_profile novice =
     Some \<lparr>doctrine_type = TRANSCENDENT, strength = 0.1, time_indoctrinated = 0, guru_id = None\<rparr>
   \<and> override_frequency (DoctrineRegistry_get TRANSCENDENT) * 0.1 < 0.5
   \<and> get_doctrine_override 0.5 0 novice = Some PANTHEON"
  by (simp add: get_doctrine_override_def overrides_def novice_def DoctrineRegistry_get_def)

text \<open>
  Claim C7. An agent that holds no profile is indoctrinated exactly when
  0.6 * vulnerability + 0.2 * min(1, stress/80) + 0.2 * (1 - coherence) * 0.5 exceeds the
  draw \<open>r\<close>: the call then returns True, installs a fresh profile of strength 0.1 and
  appends the EXPOSED entry as the last history item; otherwise it returns False and
  changes nothing. This holds for \<^verbatim>\<open>NPC.expose_to_doctrine\<close> and for
  \<^verbatim>\<open>DoctrineMixin.expose_to_doctrine\<close>, each with its own vulnerability table. For a
  PRAGMATIST with stress 60 and coherence 0.5 exposed to MERITOCRATIC the threshold is
  0.68: the attempt succeeds exactly for the draws below 0.68.
\<close>

theorem exposure_without_profile:
  assumes "doctrine_profile n = None" and "doctrine_profile m = None"
  shows "expose_to_doctrine d gid tick r n =
           (if 0.6 * lookup_vulnerability vulnerability (archetype n) d
                 + 0.2 * min 1 (stress_endured n / 80)
                 + 0.2 * (1 - coherence n) * 0.5 > r
            then (True,
                  n\<lparr>doctrine_profile :=
                      Some \<lparr>doctrine_type = d, strength = 0.1, time_indoctrinated = 0, guru_id = gid\<rparr>,
                    doctrine_history := deque_append 50 (doctrine_history n) (tick, Some d, EXPOSED)\<rparr>)
            else (False, n))
       \<and> mixin_expose_to_doctrine d gid tick r m =
           (if 0.6 * lookup_vulnerability ARCHETYPE_VULNERABILITIES (archetype m) d
                 + 0.2 * min 1 (stress_endured m / 80)
                 + 0.2 * (1 - coherence m) * 0.5 > r
            then (True,
                  m\<lparr>doctrine_profile :=
                      Some \<lparr>doctrine_type = d, strength = 0.1, time_indoctrinated = 0, guru_id = gid,
                            conflict_dissonance = 0\<rparr>,
                    doctrine_history := deque_append 50 (doctrine_history m) (tick, Some d, EXPOSED)\<rparr>)
            else (False, m))
       \<and> last (deque_append 50 (doctrine_history n) (tick, Some d, EXPOSED)) = (tick, Some d, EXPOSED)
       \<and> last (deque_append 50 (doctrine_history m) (tick, Some d, EXPOSED)) = (tick, Some d, EXPOSED)
       \<and> (archetype n = Some PRAGMATIST \<and> stress_endured n = 60 \<and> coherence n = 0.5 \<and> d = MERITOCRATIC
            \<longrightarrow> fst (expose_to_doctrine d gid tick r n) = (r < 0.68))
       \<and> (archetype m = Some PRAGMATIST \<and> stress_endured m = 60 \<and> coherence m = 0.5 \<and> d = MERITOCRATIC
            \<longrightarrow> fst (mixin_expose_to_doctrine d gid tick r m) = (r < 0.68))"
proof -
  have a: "base * 0.6 + s * 0.2 + (1 - c) * 0.5 * 0.2 = 0.6 * base + 0.2 * s + 0.2 * (1 - c) * 0.5"
    for base s c :: real by simp
  have n: "expose_to_doctrine d gid tick r n =
           (if 0.6 * lookup_vulnerability vulnerability (archetype n) d
                 + 0.2 * min 1 (stress_endured n / 80)
                 + 0.2 * (1 - coherence n) * 0.5 > r
            then (True,
                  n\<lparr>doctrine_profile :=
                      Some \<lparr>doctrine_type = d, strength = 0.1, time_indoctrinated = 0, guru_id = gid\<rparr>,
                    doctrine_history := deque_append 50 (doctrine_history n) (tick, Some d, EXPOSED)\<rparr>)
            else (False, n))"
    unfolding expose_to_doctrine_def Let_def a using assms(1) by simp
  have m: "mixin_expose_to_doctrine d gid tick r m =
           (if 0.6 * lookup_vulnerability ARCHETYPE_VULNERABILITIES (archetype m) d
                 + 0.2 * min 1 (stress_endured m / 80)
                 + 0.2 * (1 - coherence m) * 0.5 > r
            then (True,
                  m\<lparr>doctrine_profile :=
                      Some \<lparr>doctrine_type = d, strength = 0.1, time_indoctrinated = 0, guru_id = gid,
                            conflict_dissonance = 0\<rparr>,
                    doctrine_history := deque_append 50 (doctrine_history m) (tick, Some d, EXPOSED)\<rparr>)
            else (False, m))"
    unfolding mixin_expose_to_doctrine_def mixin_try_indoctrinate_def Let_def a using assms(2) by simp
  have pn: "fst (expose_to_doctrine d gid tick r n) = (r < 0.68)"
    if "archetype n = Some PRAGMATIST" "stress_endured n = 60" "coherence n = 0.5" "d = MERITOCRATIC"
    unfolding n by (auto simp add: that lookup_vulnerability_def vulnerability_def)
  have pm: "fst (mixin_expose_to_doctrine d gid tick r m) = (r < 0.68)"
    if "archetype m = Some PRAGMATIST" "stress_endured m = 60" "coherence m = 0.5" "d = MERITOCRATIC"
    unfolding m by (auto simp add: that lookup_vulnerability_def ARCHETYPE_VULNERABILITIES_def)
  show ?thesis
    using n m pn pm by (simp add: deque_append_last)
qed


theorem exposure_without_profile_witness:
  "doctrine_profile scenario_agent = None \<and> doctrine_profile mixin_scenario_agent = None
   \<and> expose_to_doctrine MERITOCRATIC (Some 1) 7 0.5 scenario_agent =
       (True,
        scenario_agent
          \<lparr>doctrine_profile :=
             Some \<lparr>doctrine_type = MERITOCRATIC, strength = 0.1, time_indoctrinated = 0,
                   guru_id = Some 1\<rparr>,
           doctrine_history := [(7, Some MERITOCRATIC, EXPOSED)]\<rparr>)
   \<and> mixin_expose_to_doctrine MERITOCRATIC (Some 1) 7 0.5 mixin_scenario_agent =
       (True,
        mixin_scenario_agent
          \<lparr>doctrine_profile :=
             Some \<lparr>doctrine_type = MERITOCRATIC, strength = 0.1, time_indoctrinated = 0,
                   guru_id = Some 1, conflict_dissonance = 0\<rparr>,
           doctrine_history := [(7, Some MERITOCRATIC, EXPOSED)]\<rparr>)
   \<and> expose_to_doctrine MERITOCRATIC (Some 1) 7 0.68 scenario_agent = (False, scenario_agent)"
proof -
  have h1: "doctrine_profile scenario_agent = None"
    by (simp add: scenario_agent_def example_defs)
  have h2: "doctrine_profile mixin_scenario_agent = None"
    by (simp add: mixin_scenario_agent_def example_defs)
  have f: "archetype scenario_agent = Some PRAGMATIST" "stress_endured scenario_agent = 60"
    "coherence scenario_agent = 0.5" "doctrine_history scenario_agent = []"
    "archetype mixin_scenario_agent = Some PRAGMATIST" "stress_endured mixin_scenario_agent = 60"
    "coherence mixin_scenario_agent = 0.5" "doctrine_history mixin_scenario_agent = []"
    by (simp_all add: mixin_scenario_agent_def scenario_agent_def example_defs)
  show ?thesis
    using exposure_without_profile [OF h1 h2, where d = MERITOCRATIC and gid = "Some 1" and tick = 7 and r = "0.5"]
      exposure_without_profile [OF h1 h2, where d = MERITOCRATIC and gid = "Some 1" and tick = 7 and r = "0.68"]
    by (simp add: h1 h2 f lookup_vulnerability_def vulnerability_def ARCHETYPE_VULNERABILITIES_def
        deque_append_def)
qed


text \<open>
  Claim C8. Exposure to the doctrine already held returns False and keeps the profile:
  the agent changes in its profile only, and the profile in its strength only
  (\<open>time_indoctrinated\<close>, doctrine type, guru and dissonance are the old ones). The strength
  grows by 0.01 in \<^verbatim>\<open>npc.py\<close>; in \<^verbatim>\<open>doctrines.py\<close> it becomes min(1, strength + 0.01),
  which is not below a strength of at most 1.
\<close>

theorem same_doctrine_reexposure:
  assumes "doctrine_profile n = Some p" and "doctrine_type p = d"
    and "doctrine_profile m = Some q" and "doctrine_type q = d"
  shows "(\<exists>p'. expose_to_doctrine d gid tick r n = (False, n\<lparr>doctrine_profile := Some p'\<rparr>)
            \<and> p' = p\<lparr>strength := strength p + 0.01\<rparr>
            \<and> time_indoctrinated p' = time_indoctrinated p
            \<and> doctrine_type p' = d \<and> guru_id p' = guru_id p \<and> strength p < strength p')
       \<and> (\<exists>q'. mixin_expose_to_doctrine d gid tick r m = (False, m\<lparr>doctrine_profile := Some q'\<rparr>)
            \<and> q' = q\<lparr>strength := min 1 (strength q + 0.01)\<rparr>
            \<and> time_indoctrinated q' = time_indoctrinated q
            \<and> doctrine_type q' = d \<and> guru_id q' = guru_id q
            \<and> conflict_dissonance q' = conflict_dissonance q
            \<and> (strength q \<le> 1 \<longrightarrow> strength q \<le> strength q'))"
  using assms by (simp add: expose_to_doctrine_def mixin_expose_to_doctrine_def)

theorem same_doctrine_reexposure_witness:
  "expose_to_doctrine MERITOCRATIC (Some 1) 7 0 merit_holder =
     (False,
      merit_holder
        \<lparr>doctrine_profile :=
           Some \<lparr>doctrine_type = MERITOCRATIC, strength = 0.51, time_indoctrinated = 3,
                 guru_id = None\<rparr>\<rparr>)
   \<and> mixin_expose_to_doctrine MERITOCRATIC (Some 1) 7 0 mixin_merit_holder =
     (False,
      mixin_merit_holder
        \<lparr>doctrine_profile :=
           Some \<lparr>doctrine_type = MERITOCRATIC, strength = 0.51, time_indoctrinated = 3,
                 guru_id = None, conflict_dissonance = 0\<rparr>\<rparr>)"
proof -
  have h1: "doctrine_profile merit_holder =
              Some \<lparr>doctrine_type = MERITOCRATIC, strength = 0.5, time_indoctrinated = 3,
                    guru_id = None\<rparr>"
    by (simp add: merit_holder_def)
  have h2: "doctrine_profile mixin_merit_holder =
              Some \<lparr>doctrine_type = MERITOCRATIC, strength = 0.5, time_indoctrinated = 3,
                    guru_id = None, conflict_dissonance = 0\<rparr>"
    by (simp add: mixin_merit_holder_def)
  show ?thesis
    using same_doctrine_reexposure [OF h1 _ h2, where d = MERITOCRATIC and gid = "Some 1" and tick = 7 and r = 0]
    by simp
qed

text \<open>
  Claim C9. For every reachable agent the collapse counter is at most 1 and equals 1
  exactly when the collapse flag is set; \<^verbatim>\<open>EscapeChecks.transcendent\<close>, the TRANSCENDENT
  branch of \<^verbatim>\<open>_check_escape_conditions\<close> and \<^verbatim>\<open>ExposureChecks.revolutionary\<close> are false.
  Under \<^verbatim>\<open>act\<close> a set flag stays set with the counter unchanged, and an unset flag is set
  exactly when the decayed coherence is below 0.3, the counter then being 1.
\<close>

theorem collapse_counter_at_most_one:
  assumes "reachable n"
  shows "collapse_cycle_count n \<le> 1
       \<and> collapse_cycle_count n = (if is_collapsing n then 1 else 0)
       \<and> \<not> EscapeChecks_transcendent n \<and> \<not> ExposureChecks_revolutionary n
       \<and> (\<forall>p r. doctrine_profile n = Some p \<and> doctrine_type p = TRANSCENDENT
             \<longrightarrow> \<not> check_escape_conditions r n)
       \<and> (\<forall>anch config tick dr n'. act anch config tick dr n = Inr n' \<and> is_collapsing n
             \<longrightarrow> is_collapsing n' \<and> collapse_cycle_count n' = collapse_cycle_count n)
       \<and> (\<forall>anch config tick dr n'. act anch config tick dr n = Inr n' \<and> \<not> is_collapsing n
             \<longrightarrow> is_collapsing n' =
                   (max 0 (min 1 (coherence n * inertia config - stress_endured n * 0.001)) < 0.3)
                 \<and> collapse_cycle_count n' = (if is_collapsing n' then 1 else 0))"
proof -
  have c: "collapse_counted n" using reachable_invariant [OF assms] by simp
  then have le: "collapse_cycle_count n \<le> 1" by (simp add: collapse_counted_def)
  have esc: "\<not> check_escape_conditions r n"
    if "doctrine_profile n = Some p" "doctrine_type p = TRANSCENDENT" for p r
    using that le by (simp add: check_escape_conditions_def)
  have sticky: "is_collapsing n' \<and> collapse_cycle_count n' = collapse_cycle_count n"
    if "act anch config tick dr n = Inr n'" "is_collapsing n" for anch config tick dr n'
    using act_character(2) [OF that] .
  have first: "is_collapsing n' =
                   (max 0 (min 1 (coherence n * inertia config - stress_endured n * 0.001)) < 0.3)
                 \<and> collapse_cycle_count n' = (if is_collapsing n' then 1 else 0)"
    if a: "act anch config tick dr n = Inr n'" and nc: "\<not> is_collapsing n"
    for anch config tick dr n'
  proof -
    have "collapse_counted n'" using act_character(3) [OF a c] .
    moreover have "is_collapsing n' = is_collapsing (decay_coherence config n)"
      using act_same_character [OF a] by (simp add: same_character_def)
    ultimately show ?thesis
      using decay_coherence_sets [OF nc, of config] by (simp add: collapse_counted_def)
  qed
  have k2: "collapse_cycle_count n = (if is_collapsing n then 1 else 0)"
    using c by (simp add: collapse_counted_def)
  have k3: "\<not> EscapeChecks_transcendent n"
    using le by (simp add: EscapeChecks_transcendent_def)
  have k4: "\<not> ExposureChecks_revolutionary n"
    using le by (simp add: ExposureChecks_revolutionary_def)
  have k5: "\<forall>p r. doctrine_profile n = Some p \<and> doctrine_type p = TRANSCENDENT
             \<longrightarrow> \<not> check_escape_conditions r n"
    using esc by blast
  have k6: "\<forall>anch config tick dr n'. act anch config tick dr n = Inr n' \<and> is_collapsing n
             \<longrightarrow> is_collapsing n' \<and> collapse_cycle_count n' = collapse_cycle_count n"
    using sticky by blast
  have k7: "\<forall>anch config tick dr n'. act anch config tick dr n = Inr n' \<and> \<not> is_collapsing n
             \<longrightarrow> is_collapsing n' =
                   (max 0 (min 1 (coherence n * inertia config - stress_endured n * 0.001)) < 0.3)
                 \<and> collapse_cycle_count n' = (if is_collapsing n' then 1 else 0)"
    using first by blast
  show ?thesis by (intro conjI le k2 k3 k4 k5 k6 k7)
qed

theorem collapse_counter_at_most_one_witness:
  "reachable collapsed_agent \<and> is_collapsing collapsed_agent
   \<and> collapse_cycle_count collapsed_agent = 1
   \<and> \<not> EscapeChecks_transcendent collapsed_agent
   \<and> \<not> ExposureChecks_revolutionary collapsed_agent"
  using collapse_counter_at_most_one [OF reachable_collapsed_agent] reachable_collapsed_agent
  by (simp add: collapsed_agent_def)

text \<open>
  Claim C10. \<^verbatim>\<open>__post_init__\<close> sets the archetype PRAGMATIST whatever the agent was
  built with; every agent of \<^verbatim>\<open>World.__init__\<close> and every reachable agent has the
  archetype PRAGMATIST, and its base vulnerability is read from the PRAGMATIST row;
  \<^verbatim>\<open>act\<close> and \<^verbatim>\<open>expose_to_doctrine\<close> leave the archetype as it is.
\<close>

theorem every_agent_is_pragmatist:
  "archetype (post_init n0) = Some PRAGMATIST
   \<and> (World_init anch us = Inr ns \<longrightarrow> (\<forall>a \<in> set ns. archetype a = Some PRAGMATIST))
   \<and> (reachable n \<longrightarrow>
        archetype n = Some PRAGMATIST
        \<and> lookup_vulnerability vulnerability (archetype n) d =
            (case vulnerability PRAGMATIST d of None \<Rightarrow> 0.5 | Some v \<Rightarrow> v))
   \<and> (act anch' config tick dr n = Inr n' \<longrightarrow> archetype n' = archetype n)
   \<and> archetype (snd (expose_to_doctrine d gid tick r n)) = archetype n"
proof -
  have w: "\<forall>a \<in> set ns. archetype a = Some PRAGMATIST" if "World_init anch us = Inr ns"
    using that by (rule World_init_all) (simp add: NPC_new_fields)
  have r: "archetype n = Some PRAGMATIST
        \<and> lookup_vulnerability vulnerability (archetype n) d =
            (case vulnerability PRAGMATIST d of None \<Rightarrow> 0.5 | Some v \<Rightarrow> v)" if "reachable n"
    using reachable_invariant [OF that] by (simp add: lookup_vulnerability_def)
  have a: "archetype n' = archetype n" if "act anch' config tick dr n = Inr n'"
    using that by (rule act_character(1))
  have e: "archetype (snd (expose_to_doctrine d gid tick r n)) = archetype n"
    using same_character_expose [of d gid tick r n] 
    by (cases "expose_to_doctrine d gid tick r n") (simp add: same_character_def)
  have p: "archetype (post_init n0) = Some PRAGMATIST" by (simp add: post_init_def)
  show ?thesis using w r a e p by blast
qed

theorem every_agent_is_pragmatist_witness:
  "World_init default_anchors [(0, 0, 0, 0)] = Inr [first_agent]
   \<and> archetype first_agent = Some PRAGMATIST
   \<and> reachable collapsed_agent \<and> archetype collapsed_agent = Some PRAGMATIST
   \<and> lookup_vulnerability vulnerability (archetype collapsed_agent) MERITOCRATIC = 0.8
   \<and> act default_anchors harsh_config 1 zero_draws first_agent = Inr collapsed_agent"
proof -
  have v: "vulnerability PRAGMATIST MERITOCRATIC = Some 0.8"
    by (simp add: vulnerability_def)
  show ?thesis
    using every_agent_is_pragmatist
        [where ?n0.0 = first_agent and anch = default_anchors and us = "[(0, 0, 0, 0)]"
           and ns = "[first_agent]" and n = collapsed_agent and d = MERITOCRATIC
           and anch' = default_anchors and config = harsh_config and tick = 1
           and dr = zero_draws and n' = collapsed_agent and gid = None and r = 0]
      World_init_first_agent reachable_collapsed_agent act_first_agent
    by (clarsimp simp add: v)
qed

end
